theory Spec2Isabelle
  imports Main
begin

section \<open>Python values, exceptions and model classes\<close>

text \<open>
  The generic resource controller of \<^verbatim>\<open>server/app/base.py\<close> and the authorization
  of \<^verbatim>\<open>server/app/security.py\<close>. Column values are Python scalars; a model instance
  is its \<^verbatim>\<open>model_dump()\<close>, the fields in declaration order; a primary-key tuple is
  the list of the key columns' values.
\<close>

datatype pyval = VNone | VInt int | VStr string | VBool bool

type_synonym pk_tuple = "pyval list"

type_synonym obj = "(string \<times> pyval) list"

text \<open>
  The \<^verbatim>\<open>detail\<close> of an \<^verbatim>\<open>HTTPException\<close>: each constructor is one of the
  messages the source formats.
\<close>

datatype detail =
    DBObjectNotFound string pk_tuple
  | ObjectNotFound string pk_tuple
  | ObjectAlreadyExists pk_tuple
  | ValidationMessage string
  | CouldNotValidateCredentials
  | NotEnoughPermissions
  | UserDisabled

text \<open>
  Every raise of the source is a value: the built-in exceptions with their message, the
  errors of the store (integrity, stale data, a malformed request) under one constructor,
  and \<^verbatim>\<open>HTTPException(status_code, detail, headers)\<close>.
\<close>

datatype exc =
    TypeError string
  | AttributeError string
  | KeyError string
  | RuntimeError string
  | ValueError string
  | ValidationError string
  | StoreError string
  | HTTPException nat detail "(string \<times> string) list"

datatype annotation = AnnStr | AnnOptionalStr | AnnOther string

text \<open>
  A class of the method resolution order. \<^verbatim>\<open>getattr(clazz, "__annotations__", [])\<close>
  finds a dictionary on a class written in Python and nothing on a built-in type such as
  \<^verbatim>\<open>object\<close>, where the default \<^verbatim>\<open>[]\<close> is taken: \<open>None\<close> below.
\<close>

record pyclass =
  cls_name :: string
  cls_annotations :: "(string \<times> annotation) list option"

datatype pytype = PyInt | PyStr | PyOther string

text \<open>
  A column of \<^verbatim>\<open>cls.__table__\<close>: its name, \<^verbatim>\<open>str(column.type)\<close>,
  \<^verbatim>\<open>column.type.python_type\<close> (\<open>None\<close> where the type raises
  \<^verbatim>\<open>NotImplementedError\<close>), whether it belongs to the primary key, and whether
  it accepts \<^verbatim>\<open>NULL\<close>.
\<close>

record column =
  col_name :: string
  col_type_str :: string
  col_python_type :: "pytype option"
  col_primary_key :: bool
  col_nullable :: bool

text \<open>A declared field and its default; \<open>None\<close> is a field that declares none.\<close>

record field =
  field_name :: string
  field_default :: "pyval option"

text \<open>
  A model class \<^verbatim>\<open>cls\<close>, a subclass of \<^verbatim>\<open>BaseDB\<close>: its name, its
  \<^verbatim>\<open>__mro__\<close>, the listing \<^verbatim>\<open>dir(cls)\<close> with
  \<^verbatim>\<open>callable(getattr(cls, field))\<close> beside each name, its table (absent when the
  class is not a table model), its fields, its \<^verbatim>\<open>validate\<close> override, the
  projections \<^verbatim>\<open>__read_class__\<close>, \<^verbatim>\<open>__create_class__\<close> and
  \<^verbatim>\<open>__update_class__\<close> (each the list of its field names; the last two are
  attributes only a subclass that declares them has), and the mutable class attribute
  \<^verbatim>\<open>__default_filters__\<close>.
\<close>

record model =
  m_name :: string
  m_mro :: "pyclass list"
  m_dir :: "(string \<times> bool) list"
  m_table :: "column list option"
  m_fields :: "field list"
  m_validate :: "obj \<Rightarrow> bool \<times> string"
  m_read_class :: "string list"
  m_create_class :: "string list option"
  m_update_class :: "string list option"
  m_default_filters :: "string list"

section \<open>Reflection and field discovery\<close>

definition startswith :: "string \<Rightarrow> string \<Rightarrow> bool" where
  "startswith s p = (take (length p) s = p)"

text \<open>\<^verbatim>\<open>BaseDB._class_vars\<close>: the comprehension over \<^verbatim>\<open>dir(cls)\<close>.\<close>

definition class_vars :: "model \<Rightarrow> string list" where
  "class_vars cls =
     map fst (filter (\<lambda>a. \<not> startswith (fst a) ''_'' \<and> \<not> snd a
                          \<and> \<not> startswith (fst a) ''model'' \<and> fst a \<noteq> ''metadata'')
                (m_dir cls))"

text \<open>
  The inner loop of \<^verbatim>\<open>BaseDB._get_default_filters\<close>, over the classes of the
  \<^verbatim>\<open>__mro__\<close>, for one attribute. \<^verbatim>\<open>annotations.get\<close> on the default
  \<^verbatim>\<open>[]\<close> raises \<^verbatim>\<open>AttributeError\<close>; a missing annotation continues; on
  \<^verbatim>\<open>str\<close> or \<^verbatim>\<open>Optional[str]\<close> the source evaluates
  \<^verbatim>\<open>defaults.append[cls_attr]\<close>, the subscription of a bound method, which raises
  \<^verbatim>\<open>TypeError\<close>. So the list \<open>defaults\<close> never grows.
\<close>

fun scan_mro :: "string \<Rightarrow> pyclass list \<Rightarrow> string list \<Rightarrow> exc + string list" where
  "scan_mro cls_attr [] defaults = Inr defaults"
| "scan_mro cls_attr (clazz # rest) defaults =
     (case cls_annotations clazz of
        None \<Rightarrow> Inl (AttributeError ''list object has no attribute get'')
      | Some annotations \<Rightarrow>
          (case map_of annotations cls_attr of
             None \<Rightarrow> scan_mro cls_attr rest defaults
           | Some cls_annotation \<Rightarrow>
               if cls_annotation = AnnStr \<or> cls_annotation = AnnOptionalStr
               then Inl (TypeError ''builtin_function_or_method object is not subscriptable'')
               else scan_mro cls_attr rest defaults))"

text \<open>The outer loop, over the class variables.\<close>

fun scan_attrs :: "string list \<Rightarrow> pyclass list \<Rightarrow> string list \<Rightarrow> exc + string list" where
  "scan_attrs [] mro defaults = Inr defaults"
| "scan_attrs (cls_attr # rest) mro defaults =
     (case scan_mro cls_attr mro defaults of
        Inl e \<Rightarrow> Inl e
      | Inr defaults' \<Rightarrow> scan_attrs rest mro defaults')"

text \<open>
  \<^verbatim>\<open>BaseDB._get_default_filters\<close>. It returns the list and the class with its
  \<^verbatim>\<open>__default_filters__\<close> attribute as the call leaves it. The cache is read only
  when it is non-empty (\<^verbatim>\<open>if cls.__default_filters__\<close>).
\<close>

definition get_default_filters :: "model \<Rightarrow> exc + (string list \<times> model)" where
  "get_default_filters cls =
     (if m_default_filters cls \<noteq> [] then Inr (m_default_filters cls, cls)
      else case scan_attrs (class_vars cls) (m_mro cls) [] of
             Inl e \<Rightarrow> Inl e
           | Inr defaults \<Rightarrow> Inr (defaults, cls\<lparr>m_default_filters := defaults\<rparr>))"

text \<open>
  \<^verbatim>\<open>obj.validate()\<close> as \<^verbatim>\<open>BaseDB\<close> defines it: always valid.
\<close>

definition base_validate :: "obj \<Rightarrow> bool \<times> string" where
  "base_validate ob = (True, [])"

text \<open>
  The model of the specification's scenario, \<^verbatim>\<open>Player{id: int primary key,
  username: str}\<close> of \<^verbatim>\<open>app/models.py\<close>, as a table model. Its
  \<^verbatim>\<open>__mro__\<close> ends in \<^verbatim>\<open>object\<close>; \<^verbatim>\<open>dir\<close> lists names in
  sorted order. Neither field declares a default (\<^verbatim>\<open>Field(description=...,
  nullable=False)\<close>); the key is generated by the store.
\<close>

definition Player_mro :: "pyclass list" where
  "Player_mro =
     [\<lparr>cls_name = ''Player'',
        cls_annotations = Some [(''id'', AnnOther ''int | None''), (''username'', AnnStr)]\<rparr>,
      \<lparr>cls_name = ''BaseDB'', cls_annotations = Some []\<rparr>,
      \<lparr>cls_name = ''SQLModel'',
        cls_annotations = Some [(''metadata'', AnnOther ''ClassVar[MetaData]'')]\<rparr>,
      \<lparr>cls_name = ''BaseModel'',
        cls_annotations = Some [(''model_config'', AnnOther ''ClassVar[ConfigDict]'')]\<rparr>,
      \<lparr>cls_name = ''object'', cls_annotations = None\<rparr>]"

definition Player_table :: "column list" where
  "Player_table =
     [\<lparr>col_name = ''id'', col_type_str = ''INTEGER'', col_python_type = Some PyInt,
        col_primary_key = True, col_nullable = False\<rparr>,
      \<lparr>col_name = ''username'', col_type_str = ''VARCHAR'', col_python_type = Some PyStr,
        col_primary_key = False, col_nullable = False\<rparr>]"

definition Player :: model where
  "Player =
     \<lparr>m_name = ''Player'',
      m_mro = Player_mro,
      m_dir = [(''_as_id_tuple'', True), (''_class_vars'', True), (''apply_filter'', True),
               (''id'', False), (''metadata'', False), (''model_config'', False),
               (''model_dump'', True), (''to_db'', True), (''username'', False),
               (''validate'', True)],
      m_table = Some Player_table,
      m_fields = [\<lparr>field_name = ''id'', field_default = None\<rparr>,
                  \<lparr>field_name = ''username'', field_default = None\<rparr>],
      m_validate = base_validate,
      m_read_class = [''id'', ''username''],
      m_create_class = Some [''username''],
      m_update_class = Some [''username''],
      m_default_filters = []\<rparr>"

text \<open>
  A table model whose only column is a string key, \<^verbatim>\<open>Tag{name: str primary
  key}\<close>: here the scan meets the \<^verbatim>\<open>str\<close> annotation first.
\<close>

definition Tag :: model where
  "Tag =
     \<lparr>m_name = ''Tag'',
      m_mro = [\<lparr>cls_name = ''Tag'', cls_annotations = Some [(''name'', AnnStr)]\<rparr>,
               \<lparr>cls_name = ''BaseDB'', cls_annotations = Some []\<rparr>,
               \<lparr>cls_name = ''object'', cls_annotations = None\<rparr>],
      m_dir = [(''_class_vars'', True), (''metadata'', False), (''name'', False),
               (''validate'', True)],
      m_table = Some [\<lparr>col_name = ''name'', col_type_str = ''VARCHAR'',
                       col_python_type = Some PyStr, col_primary_key = True,
                       col_nullable = False\<rparr>],
      m_fields = [\<lparr>field_name = ''name'', field_default = None\<rparr>],
      m_validate = base_validate,
      m_read_class = [''name''],
      m_create_class = Some [''name''],
      m_update_class = Some [],
      m_default_filters = []\<rparr>"

section \<open>Path parameters: the generated signature\<close>

datatype param_kind =
  POSITIONAL_ONLY | POSITIONAL_OR_KEYWORD | VAR_POSITIONAL | KEYWORD_ONLY | VAR_KEYWORD

text \<open>
  An \<^verbatim>\<open>inspect.Parameter\<close>: name, kind and annotation (\<open>None\<close>: no annotation,
  or the annotation \<^verbatim>\<open>None\<close> that a miss of \<^verbatim>\<open>TYPE_MAP.get\<close> gives).
\<close>

record parameter =
  p_name :: string
  p_kind :: param_kind
  p_annotation :: "pytype option"

text \<open>An ordered dictionary, as \<^verbatim>\<open>old_sig.parameters.copy()\<close> is.\<close>

type_synonym 'v odict = "(string \<times> 'v) list"

definition dict_pop :: "string \<Rightarrow> 'v odict \<Rightarrow> exc + 'v odict" where
  "dict_pop k d =
     (case map_of d k of
        None \<Rightarrow> Inl (KeyError k)
      | Some v \<Rightarrow> Inr (filter (\<lambda>p. fst p \<noteq> k) d))"

fun dict_set :: "string \<Rightarrow> 'v \<Rightarrow> 'v odict \<Rightarrow> 'v odict" where
  "dict_set k v [] = [(k, v)]"
| "dict_set k v (p # ps) = (if fst p = k then (k, v) # ps else p # dict_set k v ps)"

text \<open>
  Iterating \<^verbatim>\<open>cls.__table__.primary_key\<close>: the key columns in declaration order.
  A class that is not a table model has no \<^verbatim>\<open>__table__\<close>.
\<close>

definition primary_keys :: "model \<Rightarrow> exc + column list" where
  "primary_keys cls =
     (case m_table cls of
        None \<Rightarrow> Inl (AttributeError ''__table__'')
      | Some cols \<Rightarrow> Inr (filter col_primary_key cols))"

fun join :: "string \<Rightarrow> string list \<Rightarrow> string" where
  "join sep [] = []"
| "join sep [x] = x"
| "join sep (x # y # ys) = x @ sep @ join sep (y # ys)"

text \<open>\<^verbatim>\<open>BaseDB._as_id_endpoint\<close>.\<close>

definition as_id_endpoint :: "model \<Rightarrow> exc + string" where
  "as_id_endpoint cls =
     (case primary_keys cls of
        Inl e \<Rightarrow> Inl e
      | Inr keys \<Rightarrow> Inr (''/{'' @ join ''}/{'' (map col_name keys) @ ''}''))"

definition TYPE_MAP :: "pytype odict" where
  "TYPE_MAP = [(''VARCHAR'', PyStr), (''INTEGER'', PyInt)]"

text \<open>
  The body of the first loop of \<^verbatim>\<open>_create_id_signature\<close>:
  \<^verbatim>\<open>column.type.python_type\<close>, and \<^verbatim>\<open>TYPE_MAP.get(str(column.type))\<close>
  where that raises \<^verbatim>\<open>NotImplementedError\<close>.
\<close>

definition c_type :: "column \<Rightarrow> pytype option" where
  "c_type col =
     (case col_python_type col of
        Some t \<Rightarrow> Some t
      | None \<Rightarrow> map_of TYPE_MAP (col_type_str col))"

definition sig_type_map :: "column list \<Rightarrow> (pytype option) odict" where
  "sig_type_map keys = foldl (\<lambda>m key. dict_set (col_name key) (c_type key) m) [] keys"

text \<open>
  The second loop: one keyword-only parameter per key column. The lookup
  \<^verbatim>\<open>sig_type_map[key.name]\<close> always finds the entry the first loop stored.
\<close>

definition add_id_parameters ::
  "(pytype option) odict \<Rightarrow> column list \<Rightarrow> parameter odict \<Rightarrow> parameter odict" where
  "add_id_parameters tm keys modified_sig =
     foldl (\<lambda>sg key.
              dict_set (col_name key)
                \<lparr>p_name = col_name key, p_kind = KEYWORD_ONLY,
                 p_annotation = (case map_of tm (col_name key) of Some t \<Rightarrow> t | None \<Rightarrow> None)\<rparr>
                sg)
       modified_sig keys"

text \<open>
  What \<^verbatim>\<open>Signature\<close> is given. \<^verbatim>\<open>list(values)\<close> would be a list of
  parameters; the source writes \<^verbatim>\<open>list[modified_sig.values()]\<close>, the subscription
  of the type \<^verbatim>\<open>list\<close>, which is a \<^verbatim>\<open>types.GenericAlias\<close>.
\<close>

datatype sig_arg = ParameterList "parameter list" | GenericAlias "parameter list"

fun kind_rank :: "param_kind \<Rightarrow> nat" where
  "kind_rank POSITIONAL_ONLY = 0"
| "kind_rank POSITIONAL_OR_KEYWORD = 1"
| "kind_rank VAR_POSITIONAL = 2"
| "kind_rank KEYWORD_ONLY = 3"
| "kind_rank VAR_KEYWORD = 4"

text \<open>
  \<^verbatim>\<open>inspect.Signature(parameters)\<close>. It iterates its argument and reads
  \<^verbatim>\<open>param.kind\<close> of each item: the one item a \<^verbatim>\<open>GenericAlias\<close> of
  \<^verbatim>\<open>list\<close> yields has no such attribute. A list of parameters is checked for
  the order of the kinds and for repeated names.
\<close>

fun Signature :: "sig_arg \<Rightarrow> exc + parameter list" where
  "Signature (GenericAlias ps) = Inl (AttributeError ''type object list has no attribute kind'')"
| "Signature (ParameterList ps) =
     (if \<not> sorted (map (\<lambda>p. kind_rank (p_kind p)) ps) then Inl (ValueError ''wrong parameter order'')
      else if \<not> distinct (map p_name ps) then Inl (ValueError ''duplicate parameter name'')
      else Inr ps)"

text \<open>\<^verbatim>\<open>BaseDB._create_id_signature\<close>.\<close>

definition create_id_signature :: "model \<Rightarrow> parameter odict \<Rightarrow> exc + parameter list" where
  "create_id_signature cls old_sig =
     (case dict_pop ''kwargs'' old_sig of
        Inl e \<Rightarrow> Inl e
      | Inr modified_sig \<Rightarrow>
          (case primary_keys cls of
             Inl e \<Rightarrow> Inl e
           | Inr keys \<Rightarrow>
               Signature
                 (GenericAlias
                    (map snd (add_id_parameters (sig_type_map keys) keys modified_sig)))))"

section \<open>Route registration\<close>

text \<open>
  The functions the wrappers define, with what they close over: the scopes handed to
  \<^verbatim>\<open>Security\<close>, the replaced \<^verbatim>\<open>__signature__\<close>, the sort options, and the
  class the request body is annotated with.
\<close>

datatype endpoint =
    ReadSingleEndpoint "string list" "parameter list"
  | ReadListEndpoint "string list" "string list"
  | CreateEndpoint "string list" "string list"
  | UpdateEndpoint "string list" "string list" "parameter list"
  | DeleteEndpoint "string list" "parameter list"

text \<open>
  A route as \<^verbatim>\<open>router.add_api_route\<close> receives it (the display name and the
  description are left out). A router is the list of its routes.
\<close>

record api_route =
  route_path :: string
  route_endpoint :: endpoint
  route_methods :: "string list"
  route_status_code :: "nat option"

type_synonym router = "api_route list"

definition kw_param :: "string \<Rightarrow> pytype option \<Rightarrow> string \<times> parameter" where
  "kw_param n a = (n, \<lparr>p_name = n, p_kind = KEYWORD_ONLY, p_annotation = a\<rparr>)"

definition var_kwargs :: "string \<times> parameter" where
  "var_kwargs = (''kwargs'', \<lparr>p_name = ''kwargs'', p_kind = VAR_KEYWORD, p_annotation = None\<rparr>)"

text \<open>The signatures of the inner functions as the source declares them.\<close>

definition read_single_object_sig :: "parameter odict" where
  "read_single_object_sig =
     [kw_param ''current_user'' None, kw_param ''session'' (Some (PyOther ''Session'')), var_kwargs]"

definition update_object_sig :: "parameter odict" where
  "update_object_sig =
     [kw_param ''current_user'' None, kw_param ''session'' (Some (PyOther ''Session'')),
      kw_param ''obj'' (Some (PyOther ''update_class'')), var_kwargs]"

definition delete_object_sig :: "parameter odict" where
  "delete_object_sig =
     [kw_param ''current_user'' None, kw_param ''session'' (Some (PyOther ''Session'')), var_kwargs]"

definition read_single_object_wrapper :: "model \<Rightarrow> string list \<Rightarrow> exc + endpoint" where
  "read_single_object_wrapper cls scopes =
     (case create_id_signature cls read_single_object_sig of
        Inl e \<Rightarrow> Inl e
      | Inr new_sig \<Rightarrow> Inr (ReadSingleEndpoint scopes new_sig))"

definition read_list_object_wrapper :: "model \<Rightarrow> string list \<Rightarrow> endpoint" where
  "read_list_object_wrapper cls scopes = ReadListEndpoint scopes (class_vars cls)"

definition create_object_wrapper :: "model \<Rightarrow> string list \<Rightarrow> string list \<Rightarrow> endpoint" where
  "create_object_wrapper cls scopes create_class = CreateEndpoint scopes create_class"

definition update_object_wrapper :: "model \<Rightarrow> string list \<Rightarrow> string list \<Rightarrow> exc + endpoint" where
  "update_object_wrapper cls scopes update_class =
     (case create_id_signature cls update_object_sig of
        Inl e \<Rightarrow> Inl e
      | Inr new_sig \<Rightarrow> Inr (UpdateEndpoint scopes update_class new_sig))"

definition delete_object_wrapper :: "model \<Rightarrow> string list \<Rightarrow> exc + endpoint" where
  "delete_object_wrapper cls scopes =
     (case create_id_signature cls delete_object_sig of
        Inl e \<Rightarrow> Inl e
      | Inr new_sig \<Rightarrow> Inr (DeleteEndpoint scopes new_sig))"

definition add_api_route ::
  "router \<Rightarrow> string \<Rightarrow> endpoint \<Rightarrow> string list \<Rightarrow> nat option \<Rightarrow> router" where
  "add_api_route router path ep methods status_code =
     router @ [\<lparr>route_path = path, route_endpoint = ep, route_methods = methods,
                route_status_code = status_code\<rparr>]"

text \<open>
  The five \<^verbatim>\<open>register_*\<close> methods. The arguments of \<^verbatim>\<open>add_api_route\<close>
  are evaluated from left to right: the path, then the wrapper. Only
  \<^verbatim>\<open>register_read_single\<close> appends \<^verbatim>\<open>_as_id_endpoint()\<close> to the path;
  \<^verbatim>\<open>register_create\<close> hands \<^verbatim>\<open>cls.__update_class__\<close> to the wrapper as
  its \<^verbatim>\<open>create_class\<close>.
\<close>

definition register_read_single :: "model \<Rightarrow> router \<Rightarrow> string \<Rightarrow> string list \<Rightarrow> exc + router" where
  "register_read_single cls router route scopes =
     (case as_id_endpoint cls of
        Inl e \<Rightarrow> Inl e
      | Inr id_endpoint \<Rightarrow>
          (case read_single_object_wrapper cls scopes of
             Inl e \<Rightarrow> Inl e
           | Inr ep \<Rightarrow> Inr (add_api_route router (''/'' @ route @ id_endpoint) ep [''GET''] None)))"

definition register_read_list :: "model \<Rightarrow> router \<Rightarrow> string \<Rightarrow> string list \<Rightarrow> exc + router" where
  "register_read_list cls router route scopes =
     Inr (add_api_route router (''/'' @ route) (read_list_object_wrapper cls scopes) [''GET''] None)"

definition register_create :: "model \<Rightarrow> router \<Rightarrow> string \<Rightarrow> string list \<Rightarrow> exc + router" where
  "register_create cls router route scopes =
     (case m_update_class cls of
        None \<Rightarrow> Inl (AttributeError ''__update_class__'')
      | Some update_class \<Rightarrow>
          Inr (add_api_route router (''/'' @ route) (create_object_wrapper cls scopes update_class)
                 [''POST''] (Some 201)))"

definition register_update :: "model \<Rightarrow> router \<Rightarrow> string \<Rightarrow> string list \<Rightarrow> exc + router" where
  "register_update cls router route scopes =
     (case m_update_class cls of
        None \<Rightarrow> Inl (AttributeError ''__update_class__'')
      | Some update_class \<Rightarrow>
          (case update_object_wrapper cls scopes update_class of
             Inl e \<Rightarrow> Inl e
           | Inr ep \<Rightarrow> Inr (add_api_route router (''/'' @ route) ep [''PATCH''] None)))"

definition register_delete :: "model \<Rightarrow> router \<Rightarrow> string \<Rightarrow> string list \<Rightarrow> exc + router" where
  "register_delete cls router route scopes =
     (case delete_object_wrapper cls scopes of
        Inl e \<Rightarrow> Inl e
      | Inr ep \<Rightarrow> Inr (add_api_route router (''/'' @ route) ep [''DELETE''] (Some 204)))"

text \<open>
  A call with keyword arguments only, to a method whose parameters are the keyword-only
  \<^verbatim>\<open>router\<close>, \<^verbatim>\<open>route\<close> and \<^verbatim>\<open>scopes\<close>: a keyword that names no
  parameter and a parameter left without a value are each a \<^verbatim>\<open>TypeError\<close>.
\<close>

datatype arg = ArgRouter router | ArgRoute string | ArgScopes "string list"

definition bind_keywords :: "string \<Rightarrow> string list \<Rightarrow> arg odict \<Rightarrow> exc + arg odict" where
  "bind_keywords fname params kwargs =
     (case filter (\<lambda>k. k \<notin> set params) (map fst kwargs) of
        k # ks \<Rightarrow> Inl (TypeError (fname @ ''() got an unexpected keyword argument '' @ k))
      | [] \<Rightarrow>
          (case filter (\<lambda>p. p \<notin> set (map fst kwargs)) params of
             p # ps \<Rightarrow> Inl (TypeError (fname @ ''() missing required keyword-only argument '' @ p))
           | [] \<Rightarrow> Inr kwargs))"

definition call_register ::
  "(model \<Rightarrow> router \<Rightarrow> string \<Rightarrow> string list \<Rightarrow> exc + router) \<Rightarrow> string \<Rightarrow> model \<Rightarrow> arg odict
     \<Rightarrow> exc + router" where
  "call_register method fname cls kwargs =
     (case bind_keywords fname [''router'', ''route'', ''scopes''] kwargs of
        Inl e \<Rightarrow> Inl e
      | Inr bound \<Rightarrow>
          (case (map_of bound ''router'', map_of bound ''route'', map_of bound ''scopes'') of
             (Some (ArgRouter router), Some (ArgRoute route), Some (ArgScopes scopes)) \<Rightarrow>
               method cls router route scopes
           | _ \<Rightarrow> Inl (TypeError (fname @ ''() argument of another type''))))"

text \<open>
  \<^verbatim>\<open>BaseDB.register_routes\<close>: the five calls in order, each on the router the
  previous one left. The last call is written
  \<^verbatim>\<open>cls.register_delete(router=router, rotue=route, scopes=write)\<close>.
\<close>

definition register_routes ::
  "model \<Rightarrow> router \<Rightarrow> string \<Rightarrow> string list \<Rightarrow> string list \<Rightarrow> exc + router" where
  "register_routes cls router route read write =
     (case call_register register_read_single ''register_read_single'' cls
             [(''router'', ArgRouter router), (''route'', ArgRoute route), (''scopes'', ArgScopes read)] of
        Inl e \<Rightarrow> Inl e
      | Inr r1 \<Rightarrow>
     (case call_register register_read_list ''register_read_list'' cls
             [(''router'', ArgRouter r1), (''route'', ArgRoute route), (''scopes'', ArgScopes read)] of
        Inl e \<Rightarrow> Inl e
      | Inr r2 \<Rightarrow>
     (case call_register register_create ''register_create'' cls
             [(''router'', ArgRouter r2), (''route'', ArgRoute route), (''scopes'', ArgScopes write)] of
        Inl e \<Rightarrow> Inl e
      | Inr r3 \<Rightarrow>
     (case call_register register_update ''register_update'' cls
             [(''router'', ArgRouter r3), (''route'', ArgRoute route), (''scopes'', ArgScopes write)] of
        Inl e \<Rightarrow> Inl e
      | Inr r4 \<Rightarrow>
          call_register register_delete ''register_delete'' cls
             [(''router'', ArgRouter r4), (''rotue'', ArgRoute route), (''scopes'', ArgScopes write)]))))"

section \<open>The store and the session\<close>

text \<open>
  The table of a model is the list of its rows, each under its primary-key tuple. A
  session holds the table as committed and the changes it has been given and not yet
  flushed. \<^verbatim>\<open>get_session\<close> opens a new session for each request, so a handler
  starts with nothing pending.
\<close>

datatype pending_op = Insert obj | Update pk_tuple obj | Delete pk_tuple

record session =
  db_rows :: "(pk_tuple \<times> obj) list"
  pending :: "pending_op list"

text \<open>
  Reading a column attribute of an instance: the value it was given, and
  \<^verbatim>\<open>None\<close> when it was given none.
\<close>

definition column_value :: "obj \<Rightarrow> string \<Rightarrow> pyval" where
  "column_value row c = (case map_of row c of Some v \<Rightarrow> v | None \<Rightarrow> VNone)"

text \<open>\<^verbatim>\<open>BaseDB._as_id_tuple\<close>.\<close>

definition as_id_tuple :: "model \<Rightarrow> obj \<Rightarrow> exc + pk_tuple" where
  "as_id_tuple cls ob =
     (case primary_keys cls of
        Inl e \<Rightarrow> Inl e
      | Inr keys \<Rightarrow> Inr (map (\<lambda>key. column_value ob (col_name key)) keys))"

text \<open>
  \<^verbatim>\<open>session.get(cls, id)\<close>: the row under the tuple, \<open>None\<close> when there is none.
  The store refuses a tuple that has not one value per key column.
\<close>

definition session_get :: "model \<Rightarrow> session \<Rightarrow> pk_tuple \<Rightarrow> exc + obj option" where
  "session_get cls s ident =
     (case primary_keys cls of
        Inl e \<Rightarrow> Inl e
      | Inr keys \<Rightarrow>
          if length ident = length keys then Inr (map_of (db_rows s) ident)
          else Inl (StoreError ''incorrect number of values in identifier''))"

definition session_add :: "session \<Rightarrow> pending_op \<Rightarrow> session" where
  "session_add s op = s\<lparr>pending := pending s @ [op]\<rparr>"

text \<open>The next value of an integer key the store generates.\<close>

fun next_id :: "(pk_tuple \<times> obj) list \<Rightarrow> int" where
  "next_id [] = 1"
| "next_id ((k, ob) # rows) =
     (case k of [VInt i] \<Rightarrow> max (i + 1) (next_id rows) | _ \<Rightarrow> next_id rows)"

text \<open>
  The row an instance is written as: a value for every column, \<^verbatim>\<open>NULL\<close>
  where the instance has none. A column that does not accept \<^verbatim>\<open>NULL\<close>
  refuses it.
\<close>

definition row_of :: "column list \<Rightarrow> obj \<Rightarrow> obj" where
  "row_of cols ob = map (\<lambda>c. (col_name c, column_value ob (col_name c))) cols"

definition null_refused :: "column list \<Rightarrow> obj \<Rightarrow> bool" where
  "null_refused cols ob =
     list_ex (\<lambda>c. column_value ob (col_name c) = VNone \<and> \<not> col_nullable c) cols"

text \<open>
  Flushing one change. An insert with the single integer key left \<^verbatim>\<open>None\<close> gets
  a generated key; a \<^verbatim>\<open>None\<close> in a key or in a column that refuses it, and
  a key already taken, are integrity errors. An update rewrites the row the instance was
  loaded from, key columns included; the instance has a value for every column, since it
  was loaded from a row.
\<close>

definition flush_insert :: "model \<Rightarrow> (pk_tuple \<times> obj) list \<Rightarrow> obj \<Rightarrow> exc + (pk_tuple \<times> obj) list" where
  "flush_insert cls rows ob =
     (case m_table cls of
        None \<Rightarrow> Inl (AttributeError ''__table__'')
      | Some cols \<Rightarrow>
          (let keys = filter col_primary_key cols;
               ob' = (if map (\<lambda>key. column_value ob (col_name key)) keys = [VNone]
                         \<and> map col_python_type keys = [Some PyInt]
                      then dict_set (col_name (hd keys)) (VInt (next_id rows)) ob
                      else ob);
               key = map (\<lambda>key. column_value ob' (col_name key)) keys
           in if VNone \<in> set key \<or> null_refused cols ob'
              then Inl (StoreError ''NOT NULL constraint failed'')
              else if map_of rows key \<noteq> None then Inl (StoreError ''UNIQUE constraint failed'')
              else Inr (rows @ [(key, row_of cols ob')])))"

definition flush_update ::
  "model \<Rightarrow> (pk_tuple \<times> obj) list \<Rightarrow> pk_tuple \<Rightarrow> obj \<Rightarrow> exc + (pk_tuple \<times> obj) list" where
  "flush_update cls rows ident ob =
     (case m_table cls of
        None \<Rightarrow> Inl (AttributeError ''__table__'')
      | Some cols \<Rightarrow>
          (let key = map (\<lambda>key. column_value ob (col_name key)) (filter col_primary_key cols)
           in if map_of rows ident = None then Inl (StoreError ''row to update is gone'')
              else if VNone \<in> set key \<or> null_refused cols ob
              then Inl (StoreError ''NOT NULL constraint failed'')
              else if key \<noteq> ident \<and> map_of rows key \<noteq> None
              then Inl (StoreError ''UNIQUE constraint failed'')
              else Inr (map (\<lambda>row. if fst row = ident then (key, ob) else row) rows)))"

fun flush_op :: "model \<Rightarrow> (pk_tuple \<times> obj) list \<Rightarrow> pending_op \<Rightarrow> exc + (pk_tuple \<times> obj) list" where
  "flush_op cls rows (Insert ob) = flush_insert cls rows ob"
| "flush_op cls rows (Update ident ob) = flush_update cls rows ident ob"
| "flush_op cls rows (Delete ident) = Inr (filter (\<lambda>row. fst row \<noteq> ident) rows)"

fun flush :: "model \<Rightarrow> (pk_tuple \<times> obj) list \<Rightarrow> pending_op list \<Rightarrow> exc + (pk_tuple \<times> obj) list" where
  "flush cls rows [] = Inr rows"
| "flush cls rows (op # ops) =
     (case flush_op cls rows op of
        Inl e \<Rightarrow> Inl e
      | Inr rows' \<Rightarrow> flush cls rows' ops)"

text \<open>
  \<^verbatim>\<open>session.commit()\<close>: all pending changes or, on an error, none of them.
\<close>

definition session_commit :: "model \<Rightarrow> session \<Rightarrow> exc + session" where
  "session_commit cls s =
     (case flush cls (db_rows s) (pending s) of
        Inl e \<Rightarrow> Inl e
      | Inr rows' \<Rightarrow> Inr \<lparr>db_rows = rows', pending = []\<rparr>)"

text \<open>
  \<^verbatim>\<open>session.refresh(instance)\<close> reloads the instance from its row. The parameter
  is required: the call \<^verbatim>\<open>session.refresh()\<close> is a \<^verbatim>\<open>TypeError\<close>.
\<close>

definition session_refresh :: "session \<Rightarrow> pk_tuple option \<Rightarrow> exc + obj" where
  "session_refresh s instance =
     (case instance of
        None \<Rightarrow> Inl (TypeError ''refresh() missing 1 required positional argument: instance'')
      | Some ident \<Rightarrow>
          (case map_of (db_rows s) ident of
             None \<Rightarrow> Inl (StoreError ''could not refresh instance'')
           | Some ob \<Rightarrow> Inr ob))"

section \<open>Projections and the handlers' bodies\<close>

text \<open>
  \<^verbatim>\<open>cls(**raw_obj)\<close> on a class that validates, as a read class does: each
  declared field takes the value given under its name, else its declared default; a
  field with neither is a validation error; names that are no field are ignored.
\<close>

fun construct :: "field list \<Rightarrow> obj \<Rightarrow> exc + obj" where
  "construct [] raw = Inr []"
| "construct (f # fs) raw =
     (case (case map_of raw (field_name f) of Some v \<Rightarrow> Some v | None \<Rightarrow> field_default f) of
        None \<Rightarrow> Inl (ValidationError (field_name f))
      | Some v \<Rightarrow>
          (case construct fs raw of
             Inl e \<Rightarrow> Inl e
           | Inr rest \<Rightarrow> Inr ((field_name f, v) # rest)))"

text \<open>
  \<^verbatim>\<open>cls(**raw_obj)\<close> on a table model, and the \<^verbatim>\<open>model_dump()\<close> of
  the instance: a table model is built without validation. Each declared field takes the
  value given under its name, else its declared default; a field with neither is left
  unset and is not in the dump.
\<close>

fun table_construct :: "field list \<Rightarrow> obj \<Rightarrow> obj" where
  "table_construct [] raw = []"
| "table_construct (f # fs) raw =
     (case (case map_of raw (field_name f) of Some v \<Rightarrow> Some v | None \<Rightarrow> field_default f) of
        None \<Rightarrow> table_construct fs raw
      | Some v \<Rightarrow> (field_name f, v) # table_construct fs raw)"

text \<open>
  \<^verbatim>\<open>BaseDB.to_db\<close>, with the dump of the instance it builds: validated on a
  class that is no table model, unvalidated on a table model.
\<close>

definition to_db :: "model \<Rightarrow> obj \<Rightarrow> exc + obj" where
  "to_db cls raw_obj =
     (case m_table cls of
        None \<Rightarrow> construct (m_fields cls) raw_obj
      | Some cols \<Rightarrow> Inr (table_construct (m_fields cls) raw_obj))"

text \<open>
  \<^verbatim>\<open>BaseRead.from_db\<close>, for a read class given by its field names, all required.
\<close>

definition from_db :: "string list \<Rightarrow> obj \<Rightarrow> exc + obj" where
  "from_db read_class ob =
     construct (map (\<lambda>n. \<lparr>field_name = n, field_default = None\<rparr>) read_class) ob"

text \<open>
  The keyword arguments \<^verbatim>\<open>**kwargs\<close> are an ordered dictionary;
  \<^verbatim>\<open>tuple(kwargs.values())\<close> is the list of its values.
\<close>

definition kwargs_id :: "pyval odict \<Rightarrow> pk_tuple" where
  "kwargs_id kwargs = map snd kwargs"

text \<open>\<^verbatim>\<open>BaseDB._base_read_single\<close>.\<close>

definition base_read_single :: "model \<Rightarrow> session \<Rightarrow> string list \<Rightarrow> pyval odict \<Rightarrow> exc + obj" where
  "base_read_single cls s read_class kwargs =
     (case session_get cls s (kwargs_id kwargs) of
        Inl e \<Rightarrow> Inl e
      | Inr None \<Rightarrow> Inl (HTTPException 404 (DBObjectNotFound (m_name cls) (kwargs_id kwargs)) [])
      | Inr (Some ob) \<Rightarrow> from_db read_class ob)"

text \<open>
  \<^verbatim>\<open>BaseDB._base_create_object\<close>, with the session as the call leaves it. Any
  exception of the lookup is caught and turned into the 422 of a duplicate. After
  \<^verbatim>\<open>add\<close> and \<^verbatim>\<open>commit\<close> the source calls \<^verbatim>\<open>session.refresh()\<close>
  without the instance.
\<close>

definition base_create_object ::
  "model \<Rightarrow> session \<Rightarrow> obj \<Rightarrow> string list \<Rightarrow> (exc + obj) \<times> session" where
  "base_create_object cls s raw_obj read_class =
     (case to_db cls raw_obj of
        Inl e \<Rightarrow> (Inl e, s)
      | Inr ob \<Rightarrow>
          if \<not> fst (m_validate cls ob)
          then (Inl (HTTPException 422 (ValidationMessage (snd (m_validate cls ob))) []), s)
          else
            (case as_id_tuple cls ob of
               Inl e \<Rightarrow> (Inl e, s)
             | Inr obj_id \<Rightarrow>
                 (case session_get cls s obj_id of
                    Inl e \<Rightarrow> (Inl (HTTPException 422 (ObjectAlreadyExists obj_id) []), s)
                  | Inr (Some existing) \<Rightarrow>
                      (Inl (HTTPException 422 (ObjectAlreadyExists obj_id) []), s)
                  | Inr None \<Rightarrow>
                      (case session_commit cls (session_add s (Insert ob)) of
                         Inl e \<Rightarrow> (Inl e, s)
                       | Inr s' \<Rightarrow>
                           (case session_refresh s' None of
                              Inl e \<Rightarrow> (Inl e, s')
                            | Inr fresh \<Rightarrow> (from_db read_class fresh, s'))))))"

text \<open>The loop \<^verbatim>\<open>for k, v in parsed_obj.model_dump().items(): setattr(obj, k, v)\<close>.\<close>

definition setattrs :: "obj \<Rightarrow> obj \<Rightarrow> obj" where
  "setattrs ob items = foldl (\<lambda>acc kv. dict_set (fst kv) (snd kv) acc) ob items"

text \<open>
  \<^verbatim>\<open>BaseDB._base_update_object\<close>. The instance loaded under \<open>id\<close> is
  overwritten with every item of the dump of the parsed instance and flushed as an update
  of that row; it is validated before anything is written.
\<close>

definition base_update_object ::
  "model \<Rightarrow> session \<Rightarrow> string list \<Rightarrow> obj \<Rightarrow> pyval odict \<Rightarrow> (exc + obj) \<times> session" where
  "base_update_object cls s read_class new_obj kwargs =
     (case session_get cls s (kwargs_id kwargs) of
        Inl e \<Rightarrow> (Inl e, s)
      | Inr None \<Rightarrow>
          (Inl (HTTPException 404 (ObjectNotFound (m_name cls) (kwargs_id kwargs)) []), s)
      | Inr (Some ob) \<Rightarrow>
          (case to_db cls new_obj of
             Inl e \<Rightarrow> (Inl e, s)
           | Inr parsed_obj \<Rightarrow>
               if \<not> fst (m_validate cls (setattrs ob parsed_obj))
               then (Inl (HTTPException 422
                            (ValidationMessage (snd (m_validate cls (setattrs ob parsed_obj)))) []), s)
               else
                 (case session_commit cls
                         (session_add s (Update (kwargs_id kwargs) (setattrs ob parsed_obj))) of
                    Inl e \<Rightarrow> (Inl e, s)
                  | Inr s' \<Rightarrow>
                      (case as_id_tuple cls (setattrs ob parsed_obj) of
                         Inl e \<Rightarrow> (Inl e, s')
                       | Inr key \<Rightarrow>
                           (case session_refresh s' (Some key) of
                              Inl e \<Rightarrow> (Inl e, s')
                            | Inr fresh \<Rightarrow> (from_db read_class fresh, s'))))))"

text \<open>\<^verbatim>\<open>BaseDB._base_delete_object\<close>: it returns nothing.\<close>

definition base_delete_object :: "model \<Rightarrow> session \<Rightarrow> pyval odict \<Rightarrow> (exc + unit) \<times> session" where
  "base_delete_object cls s kwargs =
     (case session_get cls s (kwargs_id kwargs) of
        Inl e \<Rightarrow> (Inl e, s)
      | Inr None \<Rightarrow>
          (Inl (HTTPException 404 (ObjectNotFound (m_name cls) (kwargs_id kwargs)) []), s)
      | Inr (Some ob) \<Rightarrow>
          (case session_commit cls (session_add s (Delete (kwargs_id kwargs))) of
             Inl e \<Rightarrow> (Inl e, s)
           | Inr s' \<Rightarrow> (Inr (), s')))"

section \<open>Sample data\<close>

text \<open>Two players in the table, in a new session.\<close>

definition two_players :: session where
  "two_players =
     \<lparr>db_rows = [([VInt 1], [(''id'', VInt 1), (''username'', VStr ''alice'')]),
                 ([VInt 2], [(''id'', VInt 2), (''username'', VStr ''bob'')])],
      pending = []\<rparr>"

definition empty_session :: session where
  "empty_session = \<lparr>db_rows = [], pending = []\<rparr>"

text \<open>
  A table model whose key has a default: \<^verbatim>\<open>Settings{name: str = "main" primary
  key, theme: str = "light", volume: int = 5}\<close>, with an update projection of
  \<^verbatim>\<open>theme\<close> and \<^verbatim>\<open>volume\<close>.
\<close>

definition Settings :: model where
  "Settings =
     \<lparr>m_name = ''Settings'',
      m_mro = [\<lparr>cls_name = ''Settings'',
                 cls_annotations = Some [(''name'', AnnStr), (''theme'', AnnStr),
                                         (''volume'', AnnOther ''int'')]\<rparr>,
               \<lparr>cls_name = ''BaseDB'', cls_annotations = Some []\<rparr>,
               \<lparr>cls_name = ''object'', cls_annotations = None\<rparr>],
      m_dir = [(''metadata'', False), (''name'', False), (''theme'', False),
               (''validate'', True), (''volume'', False)],
      m_table = Some [\<lparr>col_name = ''name'', col_type_str = ''VARCHAR'',
                       col_python_type = Some PyStr, col_primary_key = True,
                       col_nullable = False\<rparr>,
                      \<lparr>col_name = ''theme'', col_type_str = ''VARCHAR'',
                       col_python_type = Some PyStr, col_primary_key = False,
                       col_nullable = False\<rparr>,
                      \<lparr>col_name = ''volume'', col_type_str = ''INTEGER'',
                       col_python_type = Some PyInt, col_primary_key = False,
                       col_nullable = False\<rparr>],
      m_fields = [\<lparr>field_name = ''name'', field_default = Some (VStr ''main'')\<rparr>,
                  \<lparr>field_name = ''theme'', field_default = Some (VStr ''light'')\<rparr>,
                  \<lparr>field_name = ''volume'', field_default = Some (VInt 5)\<rparr>],
      m_validate = base_validate,
      m_read_class = [''name'', ''theme'', ''volume''],
      m_create_class = Some [''theme'', ''volume''],
      m_update_class = Some [''theme'', ''volume''],
      m_default_filters = []\<rparr>"

definition settings_rows :: session where
  "settings_rows =
     \<lparr>db_rows = [([VStr ''main''],
                  [(''name'', VStr ''main''), (''theme'', VStr ''dark''), (''volume'', VInt 9)]),
                 ([VStr ''guest''],
                  [(''name'', VStr ''guest''), (''theme'', VStr ''dark''), (''volume'', VInt 2)])],
      pending = []\<rparr>"

text \<open>
  A table model with a field outside its update projection:
  \<^verbatim>\<open>Account{id: int primary key, username: str, note: str = ""}\<close>, whose
  update projection has the field \<^verbatim>\<open>note\<close> only. Neither
  \<^verbatim>\<open>id\<close> nor \<^verbatim>\<open>username\<close> declares a default.
\<close>

definition Account :: model where
  "Account =
     \<lparr>m_name = ''Account'',
      m_mro = [\<lparr>cls_name = ''Account'',
                 cls_annotations = Some [(''id'', AnnOther ''int | None''), (''username'', AnnStr),
                                         (''note'', AnnStr)]\<rparr>,
               \<lparr>cls_name = ''BaseDB'', cls_annotations = Some []\<rparr>,
               \<lparr>cls_name = ''object'', cls_annotations = None\<rparr>],
      m_dir = [(''id'', False), (''metadata'', False), (''note'', False),
               (''username'', False), (''validate'', True)],
      m_table = Some [\<lparr>col_name = ''id'', col_type_str = ''INTEGER'',
                       col_python_type = Some PyInt, col_primary_key = True,
                       col_nullable = False\<rparr>,
                      \<lparr>col_name = ''username'', col_type_str = ''VARCHAR'',
                       col_python_type = Some PyStr, col_primary_key = False,
                       col_nullable = False\<rparr>,
                      \<lparr>col_name = ''note'', col_type_str = ''VARCHAR'',
                       col_python_type = Some PyStr, col_primary_key = False,
                       col_nullable = False\<rparr>],
      m_fields = [\<lparr>field_name = ''id'', field_default = None\<rparr>,
                  \<lparr>field_name = ''username'', field_default = None\<rparr>,
                  \<lparr>field_name = ''note'', field_default = Some (VStr [])\<rparr>],
      m_validate = base_validate,
      m_read_class = [''id'', ''username'', ''note''],
      m_create_class = Some [''username'', ''note''],
      m_update_class = Some [''note''],
      m_default_filters = []\<rparr>"

definition account_rows :: session where
  "account_rows =
     \<lparr>db_rows = [([VInt 1],
                  [(''id'', VInt 1), (''username'', VStr ''alice''), (''note'', VStr ''hello'')]),
                 ([VInt 2],
                  [(''id'', VInt 2), (''username'', VStr ''bob''), (''note'', VStr ''hi'')])],
      pending = []\<rparr>"

section \<open>The list query\<close>

text \<open>
  A \<^verbatim>\<open>select(cls)\<close> statement as the builder leaves it: the condition of
  \<^verbatim>\<open>where\<close>, the offset, the limit, and the column and direction of
  \<^verbatim>\<open>order_by\<close> (\<open>True\<close> is descending). The methods are generative, so the
  order in which the source calls them does not matter: the store filters, then orders,
  then skips \<open>offset\<close> rows, then keeps at most \<open>limit\<close> rows. Offset and limit are
  natural numbers here; what a store makes of a negative one is not modelled.
\<close>

record query =
  q_where :: "(obj \<Rightarrow> bool) option"
  q_offset :: "nat option"
  q_limit :: "nat option"
  q_order_by :: "(string \<times> bool) option"

definition select :: query where
  "select = \<lparr>q_where = None, q_offset = None, q_limit = None, q_order_by = None\<rparr>"

text \<open>The order of column values: \<^verbatim>\<open>NULL\<close> first, then by value.\<close>

fun str_le :: "string \<Rightarrow> string \<Rightarrow> bool" where
  "str_le [] t = True"
| "str_le (c # cs) [] = False"
| "str_le (c # cs) (d # ds) =
     (if (of_char c :: nat) < of_char d then True
      else if c = d then str_le cs ds else False)"

fun type_rank :: "pyval \<Rightarrow> nat" where
  "type_rank VNone = 0"
| "type_rank (VBool b) = 1"
| "type_rank (VInt i) = 2"
| "type_rank (VStr t) = 3"

fun pyval_le :: "pyval \<Rightarrow> pyval \<Rightarrow> bool" where
  "pyval_le (VInt i) (VInt j) = (i \<le> j)"
| "pyval_le (VStr t) (VStr u) = str_le t u"
| "pyval_le (VBool a) (VBool b) = (b \<or> \<not> a)"
| "pyval_le a b = (type_rank a \<le> type_rank b)"

fun insort_by :: "('a \<Rightarrow> 'a \<Rightarrow> bool) \<Rightarrow> 'a \<Rightarrow> 'a list \<Rightarrow> 'a list" where
  "insort_by le x [] = [x]"
| "insort_by le x (y # ys) = (if le x y then x # y # ys else y # insort_by le x ys)"

definition sort_by :: "('a \<Rightarrow> 'a \<Rightarrow> bool) \<Rightarrow> 'a list \<Rightarrow> 'a list" where
  "sort_by le xs = foldr (insort_by le) xs []"

text \<open>
  \<^verbatim>\<open>ORDER BY\<close>, as a stable sort on the column; a store is free in the order of
  rows that are equal on it.
\<close>

definition order_rows :: "string \<Rightarrow> bool \<Rightarrow> obj list \<Rightarrow> obj list" where
  "order_rows c descending rows =
     (if descending
      then sort_by (\<lambda>a b. pyval_le (column_value b c) (column_value a c)) rows
      else sort_by (\<lambda>a b. pyval_le (column_value a c) (column_value b c)) rows)"

text \<open>\<^verbatim>\<open>session.exec(query).all()\<close>.\<close>

definition exec_query :: "session \<Rightarrow> query \<Rightarrow> obj list" where
  "exec_query s q =
     (let filtered = (case q_where q of
                        None \<Rightarrow> map snd (db_rows s)
                      | Some p \<Rightarrow> filter p (map snd (db_rows s)));
          ordered = (case q_order_by q of
                       None \<Rightarrow> filtered
                     | Some cd \<Rightarrow> order_rows (fst cd) (snd cd) filtered);
          skipped = (case q_offset q of None \<Rightarrow> ordered | Some n \<Rightarrow> drop n ordered)
      in case q_limit q of None \<Rightarrow> skipped | Some n \<Rightarrow> take n skipped)"

text \<open>
  \<^verbatim>\<open>session.exec(select(func.count()).select_from(query.subquery())).one()\<close>: the
  number of rows of the query it is given, offset and limit included.
\<close>

definition count_subquery :: "session \<Rightarrow> query \<Rightarrow> nat" where
  "count_subquery s q = length (exec_query s q)"

text \<open>
  \<^verbatim>\<open>func.lower(column).contains(filter)\<close> is the condition
  \<^verbatim>\<open>lower(column) LIKE '%' || filter || '%'\<close>: the stored value is put in
  lower case, the filter text is taken as given and is not escaped, so a
  \<^verbatim>\<open>%\<close> in it stands for any run of characters and a \<^verbatim>\<open>_\<close>
  for any one character. How \<^verbatim>\<open>LIKE\<close> compares letters is the store's
  choice; it is taken here as SQLite does it, ignoring the case of ASCII letters. A value
  that is no string does not match.
\<close>

definition lower_char :: "char \<Rightarrow> char" where
  "lower_char c =
     (if 65 \<le> (of_char c :: nat) \<and> (of_char c :: nat) \<le> 90
      then char_of (of_char c + (32 :: nat)) else c)"

definition lower :: "string \<Rightarrow> string" where
  "lower t = map lower_char t"

fun like_match :: "string \<Rightarrow> string \<Rightarrow> bool" where
  "like_match [] [] = True"
| "like_match [] (c # cs) = False"
| "like_match (p # ps) [] = (p = CHR ''%'' \<and> like_match ps [])"
| "like_match (p # ps) (c # cs) =
     (if p = CHR ''%'' then like_match ps (c # cs) \<or> like_match (p # ps) cs
      else (p = CHR ''_'' \<or> lower_char p = lower_char c) \<and> like_match ps cs)"

text \<open>Python's \<^verbatim>\<open>needle in text\<close> on strings.\<close>

fun contains :: "string \<Rightarrow> string \<Rightarrow> bool" where
  "contains [] needle = (needle = [])"
| "contains (c # cs) needle = (startswith (c # cs) needle \<or> contains cs needle)"

definition lower_contains :: "string \<Rightarrow> string \<Rightarrow> obj \<Rightarrow> bool" where
  "lower_contains or_arg filter_text row =
     (case map_of row or_arg of
        Some (VStr v) \<Rightarrow> like_match (''%'' @ filter_text @ ''%'') (lower v)
      | _ \<Rightarrow> False)"

text \<open>
  \<^verbatim>\<open>BaseDB.apply_filter\<close>: one condition per default filter, joined by
  \<^verbatim>\<open>or_\<close>; \<^verbatim>\<open>or_()\<close> of no condition constrains nothing. The class is
  returned with the cache as the discovery left it.
\<close>

definition apply_filter :: "model \<Rightarrow> query \<Rightarrow> string \<Rightarrow> exc + (query \<times> model)" where
  "apply_filter cls q filter_text =
     (case get_default_filters cls of
        Inl e \<Rightarrow> Inl e
      | Inr (filters, cls') \<Rightarrow>
          (case map (\<lambda>or_arg. lower_contains or_arg filter_text) filters of
             [] \<Rightarrow> Inr (q, cls')
           | c # cs \<Rightarrow> Inr (q\<lparr>q_where := Some (\<lambda>row. list_ex (\<lambda>p. p row) (c # cs))\<rparr>, cls')))"

text \<open>
  \<^verbatim>\<open>query.order_by(getattr(col(getattr(cls, sort)), direction)())\<close>: the class
  must have the attribute, \<^verbatim>\<open>col\<close> must be given a column, and the direction is
  \<^verbatim>\<open>asc\<close> or \<^verbatim>\<open>desc\<close>, as the handler's parameter allows. The
  source's parameter \<^verbatim>\<open>sort\<close> is \<open>sort_field\<close> here.
\<close>

definition order_by :: "model \<Rightarrow> query \<Rightarrow> string \<Rightarrow> string \<Rightarrow> exc + query" where
  "order_by cls q sort_field direction =
     (if sort_field \<notin> set (map fst (m_dir cls)) then Inl (AttributeError sort_field)
      else case m_table cls of
             None \<Rightarrow> Inl (RuntimeError ''Not a SQLAlchemy column'')
           | Some cols \<Rightarrow>
               if sort_field \<notin> set (map col_name cols) then Inl (RuntimeError ''Not a SQLAlchemy column'')
               else if direction = ''asc'' then Inr (q\<lparr>q_order_by := Some (sort_field, False)\<rparr>)
               else if direction = ''desc'' then Inr (q\<lparr>q_order_by := Some (sort_field, True)\<rparr>)
               else Inl (AttributeError direction))"

fun map_from_db :: "string list \<Rightarrow> obj list \<Rightarrow> exc + obj list" where
  "map_from_db read_class [] = Inr []"
| "map_from_db read_class (ob # obs) =
     (case from_db read_class ob of
        Inl e \<Rightarrow> Inl e
      | Inr r \<Rightarrow> (case map_from_db read_class obs of Inl e \<Rightarrow> Inl e | Inr rs \<Rightarrow> Inr (r # rs)))"

text \<open>\<^verbatim>\<open>PaginatedResponse\<close>.\<close>

record paginated =
  total :: nat
  data :: "obj list"

text \<open>
  \<^verbatim>\<open>BaseDB._base_read_list_object\<close>. A filter and a sort are applied when they are
  given and not empty. The count is taken from the query after
  \<^verbatim>\<open>offset\<close> and \<^verbatim>\<open>limit\<close> have been set on it.
\<close>

definition base_read_list_object ::
  "model \<Rightarrow> session \<Rightarrow> nat \<Rightarrow> nat \<Rightarrow> string option \<Rightarrow> string \<Rightarrow> string option \<Rightarrow> string list
     \<Rightarrow> exc + paginated" where
  "base_read_list_object cls s offset limit sort_field direction filter_text read_class =
     (case (case filter_text of
              None \<Rightarrow> Inr select
            | Some f \<Rightarrow> if f = [] then Inr select
                        else (case apply_filter cls select f of
                                Inl e \<Rightarrow> Inl e
                              | Inr qc \<Rightarrow> Inr (fst qc))) of
        Inl e \<Rightarrow> Inl e
      | Inr q1 \<Rightarrow>
          (case (case sort_field of
                   None \<Rightarrow> Inr (q1\<lparr>q_offset := Some offset, q_limit := Some limit\<rparr>)
                 | Some c \<Rightarrow>
                     if c = [] then Inr (q1\<lparr>q_offset := Some offset, q_limit := Some limit\<rparr>)
                     else order_by cls (q1\<lparr>q_offset := Some offset, q_limit := Some limit\<rparr>)
                            c direction) of
             Inl e \<Rightarrow> Inl e
           | Inr q2 \<Rightarrow>
               (case map_from_db read_class (exec_query s q2) of
                  Inl e \<Rightarrow> Inl e
                | Inr objects \<Rightarrow> Inr \<lparr>total = count_subquery s q2, data = objects\<rparr>)))"

text \<open>
  What the specification asks of the count: the number of rows that match the filter,
  with no offset and no limit.
\<close>

definition full_filtered_size :: "session \<Rightarrow> (obj \<Rightarrow> bool) \<Rightarrow> nat" where
  "full_filtered_size s p = length (filter p (map snd (db_rows s)))"

text \<open>The condition of a list query without a filter: every row matches.\<close>

definition no_filter :: "obj \<Rightarrow> bool" where
  "no_filter row = True"

section \<open>Authorization\<close>

text \<open>
  \<^verbatim>\<open>server/app/security.py\<close>. A user's \<^verbatim>\<open>access\<close> is declared a list of
  strings and is a single string in \<^verbatim>\<open>FAKE_DB\<close>; the test
  \<^verbatim>\<open>scope not in permitted_scopes\<close> is membership on a list and containment on
  a string.
\<close>

datatype access_value = AccessStr string | AccessList "string list"

record user =
  u_id :: int
  u_username :: string
  u_email :: string
  u_disabled :: bool
  u_access :: access_value

fun py_in :: "string \<Rightarrow> access_value \<Rightarrow> bool" where
  "py_in scope (AccessStr permitted) = contains permitted scope"
| "py_in scope (AccessList permitted) = List.member permitted scope"

definition FAKE_DB :: "(string \<times> user) list" where
  "FAKE_DB =
     [(''admin'', \<lparr>u_id = 1, u_username = ''admin'', u_email = ''admin@host.com'',
                    u_disabled = False, u_access = AccessStr ''admin''\<rparr>),
      (''user'', \<lparr>u_id = 2, u_username = ''user'', u_email = ''user@host.com'',
                   u_disabled = False, u_access = AccessStr ''player''\<rparr>),
      (''disabled'', \<lparr>u_id = 3, u_username = ''disabled'', u_email = ''disabled@host.com'',
                       u_disabled = True, u_access = AccessStr ''player''\<rparr>)]"

text \<open>\<^verbatim>\<open>get_user\<close>: \<open>None\<close> when the name is not in the directory.\<close>

definition get_user :: "(string \<times> user) list \<Rightarrow> string \<Rightarrow> user option" where
  "get_user db username = map_of db username"

text \<open>
  The claims of a decoded token: \<^verbatim>\<open>payload.get("sub")\<close> and
  \<^verbatim>\<open>payload.get("scopes", [])\<close>. Decoding itself (\<^verbatim>\<open>jwt.decode\<close> with
  the secret key) is a parameter of the check: \<open>None\<close> is a \<^verbatim>\<open>JWTError\<close>.
\<close>

record payload =
  p_sub :: "string option"
  p_scopes :: "string list option"

definition requested_scopes :: "payload \<Rightarrow> string list" where
  "requested_scopes p = (case p_scopes p of None \<Rightarrow> [] | Some scopes \<Rightarrow> scopes)"

text \<open>
  The value of the \<^verbatim>\<open>WWW-Authenticate\<close> header, from the scopes the operation
  requires.
\<close>

definition authenticate_value :: "string list \<Rightarrow> string" where
  "authenticate_value scopes =
     (if scopes \<noteq> [] then ''Bearer scope='' @ [CHR 0x22] @ join '' '' scopes @ [CHR 0x22]
      else ''Bearer'')"

definition credentials_exception :: "string list \<Rightarrow> exc" where
  "credentials_exception scopes =
     HTTPException 401 CouldNotValidateCredentials [(''WWW-Authenticate'', authenticate_value scopes)]"

definition access_exception :: "string list \<Rightarrow> exc" where
  "access_exception scopes =
     HTTPException 401 NotEnoughPermissions [(''WWW-Authenticate'', authenticate_value scopes)]"

definition inactive_user_exception :: exc where
  "inactive_user_exception = HTTPException 400 UserDisabled []"

text \<open>
  The loop \<^verbatim>\<open>for scope in requested_scopes: if scope not in permitted_scopes:
  raise access_exception\<close>: \<open>True\<close> when it ends without raising.
\<close>

fun scopes_permitted :: "string list \<Rightarrow> access_value \<Rightarrow> bool" where
  "scopes_permitted [] permitted = True"
| "scopes_permitted (scope # rest) permitted =
     (if py_in scope permitted then scopes_permitted rest permitted else False)"

text \<open>
  \<^verbatim>\<open>get_current_user\<close>. The scopes the operation requires
  (\<^verbatim>\<open>scopes.scopes\<close>) go into the two exceptions' header and nowhere else; the
  scopes that are tested are those the token carries.
\<close>

definition get_current_user ::
  "(string \<Rightarrow> payload option) \<Rightarrow> (string \<times> user) list \<Rightarrow> string list \<Rightarrow> string \<Rightarrow> exc + user" where
  "get_current_user jwt_decode db scopes token =
     (case jwt_decode token of
        None \<Rightarrow> Inl (credentials_exception scopes)
      | Some p \<Rightarrow>
          (case p_sub p of
             None \<Rightarrow> Inl (credentials_exception scopes)
           | Some username \<Rightarrow>
               (case get_user db username of
                  None \<Rightarrow> Inl (credentials_exception scopes)
                | Some usr \<Rightarrow>
                    if scopes_permitted (requested_scopes p) (u_access usr) then Inr usr
                    else Inl (access_exception scopes))))"

text \<open>\<^verbatim>\<open>get_current_active_user\<close>, given the user its dependency returned.\<close>

definition get_current_active_user :: "user \<Rightarrow> exc + user" where
  "get_current_active_user current_user =
     (if u_disabled current_user then Inl inactive_user_exception else Inr current_user)"

text \<open>
  What \<^verbatim>\<open>Security(get_current_active_user, scopes=scopes)\<close> resolves to in a
  generated handler: \<^verbatim>\<open>get_current_user\<close> runs first, with the handler's scopes
  followed by the \<^verbatim>\<open>player\<close> scope its own dependency adds (how the framework
  joins the two lists shows in the header only). The handler's body runs on \<open>Inr\<close>.
\<close>

definition security_dependency ::
  "(string \<Rightarrow> payload option) \<Rightarrow> (string \<times> user) list \<Rightarrow> string list \<Rightarrow> string \<Rightarrow> exc + user" where
  "security_dependency jwt_decode db scopes token =
     (case get_current_user jwt_decode db (scopes @ [''player'']) token of
        Inl e \<Rightarrow> Inl e
      | Inr usr \<Rightarrow> get_current_active_user usr)"

text \<open>
  Tokens for the examples: one whose payload has the claim \<^verbatim>\<open>sub\<close> only,
  naming \<^verbatim>\<open>user\<close>, and one for the same user that also carries the scope
  \<^verbatim>\<open>admin\<close>.
\<close>

definition sample_decode :: "string \<Rightarrow> payload option" where
  "sample_decode token =
     (if token = ''token-user'' then Some \<lparr>p_sub = Some ''user'', p_scopes = None\<rparr>
      else if token = ''token-user-admin''
      then Some \<lparr>p_sub = Some ''user'', p_scopes = Some [''admin'']\<rparr>
      else None)"

definition the_user :: user where
  "the_user = \<lparr>u_id = 2, u_username = ''user'', u_email = ''user@host.com'',
                u_disabled = False, u_access = AccessStr ''player''\<rparr>"

section \<open>Field discovery: results\<close>

lemma class_vars_Player: "class_vars Player = [''id'', ''username'']"
  by (simp add: class_vars_def Player_def startswith_def)

lemma class_vars_Tag: "class_vars Tag = [''name'']"
  by (simp add: class_vars_def Tag_def startswith_def)

lemma scan_mro_keeps: "scan_mro a mro ds = Inr ds' \<Longrightarrow> ds' = ds"
  by (induction a mro ds rule: scan_mro.induct) (auto split: option.splits if_splits)

lemma scan_attrs_keeps: "scan_attrs as mro ds = Inr ds' \<Longrightarrow> ds' = ds"
proof (induction as mro ds rule: scan_attrs.induct)
  case (1 mro defaults)
  then show ?case by simp
next
  case (2 cls_attr rest mro defaults)
  then show ?case
    by (auto split: sum.splits dest: scan_mro_keeps)
qed

text \<open>
  Whatever the model, a fresh discovery (empty cache) that returns, returns the empty
  list: no string field is ever discovered.
\<close>

lemma get_default_filters_fresh_empty:
  assumes "m_default_filters cls = []"
    and "get_default_filters cls = Inr (fs, cls')"
  shows "fs = []"
  using assms
  by (auto simp: get_default_filters_def split: sum.splits dest: scan_attrs_keeps)

lemma get_default_filters_Tag:
  "get_default_filters Tag =
     Inl (TypeError ''builtin_function_or_method object is not subscriptable'')"
  by (simp add: get_default_filters_def class_vars_Tag) (simp add: Tag_def)

text \<open>
  C6. Default-filter discovery should return, without error, exactly the non-callable,
  non-internal declared fields annotated \<^verbatim>\<open>str\<close> or \<^verbatim>\<open>Optional[str]\<close>,
  and cache the list per type. On the model \<^verbatim>\<open>Player\<close>, whose field
  \<^verbatim>\<open>username\<close> is annotated \<^verbatim>\<open>str\<close>, the code returns nothing: the scan
  of the first class variable, \<^verbatim>\<open>id\<close>, reaches \<^verbatim>\<open>object\<close> and raises
  \<^verbatim>\<open>AttributeError\<close>; had it gone on to \<^verbatim>\<open>username\<close>, the line
  \<^verbatim>\<open>defaults.append[cls_attr]\<close> raises \<^verbatim>\<open>TypeError\<close> (as it does on
  \<^verbatim>\<open>Tag\<close>).
\<close>

theorem get_default_filters_Player_raises:
  "get_default_filters Player = Inl (AttributeError ''list object has no attribute get'')"
  by (simp add: get_default_filters_def class_vars_Player) (simp add: Player_def Player_mro_def)

section \<open>Generated signatures and route registration: results\<close>

lemma Signature_GenericAlias_raises: "\<exists>e. Signature (GenericAlias ps) = Inl e"
  by simp

text \<open>Whatever the model and the original signature, no signature is produced.\<close>

lemma create_id_signature_never_returns: "\<exists>e. create_id_signature cls old_sig = Inl e"
  by (auto simp: create_id_signature_def split: sum.splits)

lemma primary_keys_Player: "primary_keys Player = Inr [hd Player_table]"
  by (simp add: primary_keys_def Player_def Player_table_def)

lemma as_id_endpoint_Player: "as_id_endpoint Player = Inr ''/{id}''"
  by (simp add: as_id_endpoint_def primary_keys_Player) (simp add: Player_table_def)

text \<open>
  C7. The read-one, update and delete handlers should carry one path parameter per
  primary-key field, in declaration order, typed after the column, produced by rewriting
  the handler's signature without error. On \<^verbatim>\<open>Player\<close> and the signature of
  \<^verbatim>\<open>read_single_object\<close> the rewriting raises: the parameters are handed to
  \<^verbatim>\<open>Signature\<close> as \<^verbatim>\<open>list[modified_sig.values()]\<close>.
\<close>

theorem create_id_signature_Player_raises:
  "create_id_signature Player read_single_object_sig =
     Inl (AttributeError ''type object list has no attribute kind'')"
  by (simp add: create_id_signature_def primary_keys_Player dict_pop_def
        read_single_object_sig_def kw_param_def var_kwargs_def)

lemma register_read_single_never_returns:
  "\<exists>e. register_read_single cls router route scopes = Inl e"
proof -
  obtain e where "create_id_signature cls read_single_object_sig = Inl e"
    using create_id_signature_never_returns by blast
  then show ?thesis
    by (auto simp: register_read_single_def read_single_object_wrapper_def split: sum.splits)
qed

text \<open>
  The last call of \<^verbatim>\<open>register_routes\<close>, taken alone: the keyword
  \<^verbatim>\<open>rotue\<close> names no parameter of \<^verbatim>\<open>register_delete\<close>.
\<close>

lemma register_delete_call_raises:
  "call_register register_delete ''register_delete'' cls
     [(''router'', ArgRouter r), (''rotue'', ArgRoute route), (''scopes'', ArgScopes write)] =
   Inl (TypeError ''register_delete() got an unexpected keyword argument rotue'')"
  by (simp add: call_register_def bind_keywords_def)

lemma register_routes_never_returns:
  "\<exists>e. register_routes cls router route read write = Inl e"
proof -
  obtain e where "register_read_single cls router route read = Inl e"
    using register_read_single_never_returns by blast
  then show ?thesis
    by (simp add: register_routes_def call_register_def bind_keywords_def)
qed

text \<open>
  C5. \<^verbatim>\<open>register_routes\<close> should register the five operations on the router without
  raising. On \<^verbatim>\<open>Player\<close>, the route \<^verbatim>\<open>players\<close> and the scope lists
  \<^verbatim>\<open>["player"]\<close> and \<^verbatim>\<open>["admin"]\<close> it raises in its first call and
  registers nothing.
\<close>

theorem register_routes_Player_raises:
  "register_routes Player [] ''players'' [''player''] [''admin''] =
     Inl (AttributeError ''type object list has no attribute kind'')"
  by (simp add: register_routes_def call_register_def bind_keywords_def register_read_single_def
        as_id_endpoint_Player read_single_object_wrapper_def
        create_id_signature_def primary_keys_Player dict_pop_def
        read_single_object_sig_def kw_param_def var_kwargs_def)

section \<open>Create, read, update and delete: results\<close>

lemma map_of_dict_set: "map_of (dict_set k v ob) k' = (if k' = k then Some v else map_of ob k')"
  by (induction ob) auto

lemma map_of_setattrs:
  "distinct (map fst items) \<Longrightarrow>
   map_of (setattrs ob items) k = (case map_of items k of Some v \<Rightarrow> Some v | None \<Rightarrow> map_of ob k)"
  unfolding setattrs_def
proof (induction items arbitrary: ob)
  case Nil
  then show ?case by simp
next
  case (Cons kv items)
  then have "map_of items (fst kv) = None"
    by (simp add: map_of_eq_None_iff)
  with Cons show ?case
    by (cases kv) (auto simp: map_of_dict_set split: option.splits)
qed

lemma table_construct_keys:
  "set (map fst (table_construct fs raw)) \<subseteq> set (map field_name fs)"
  by (induction fs) (auto split: option.splits)

lemma table_construct_distinct:
  "distinct (map field_name fs) \<Longrightarrow> distinct (map fst (table_construct fs raw))"
proof (induction fs)
  case Nil
  then show ?case by simp
next
  case (Cons f fs)
  then have "field_name f \<notin> set (map fst (table_construct fs raw))"
    using table_construct_keys[of fs raw] by auto
  with Cons show ?case
    by (auto split: option.splits)
qed

lemma table_construct_lookup:
  "distinct (map field_name fs) \<Longrightarrow> f \<in> set fs \<Longrightarrow>
   map_of (table_construct fs raw) (field_name f) =
     (case map_of raw (field_name f) of Some v \<Rightarrow> Some v | None \<Rightarrow> field_default f)"
proof (induction fs)
  case Nil
  then show ?case by simp
next
  case (Cons g fs)
  from Cons.prems(1) have gnot: "field_name g \<notin> field_name ` set fs"
    and dfs: "distinct (map field_name fs)"
    by simp_all
  show ?case
  proof (cases "f = g")
    case True
    from gnot table_construct_keys[of fs raw]
    have "field_name g \<notin> fst ` set (table_construct fs raw)"
      by auto
    then have "map_of (table_construct fs raw) (field_name g) = None"
      by (simp add: map_of_eq_None_iff)
    with True show ?thesis
      by (auto split: option.splits)
  next
    case False
    with Cons.prems have fin: "f \<in> set fs"
      by simp
    with gnot have ne: "field_name f \<noteq> field_name g"
      by (metis imageI)
    from Cons.IH[OF dfs fin] ne show ?thesis
      by (auto split: option.splits)
  qed
qed

lemma map_of_rewrite_other:
  "k \<noteq> ident \<Longrightarrow> k \<noteq> key \<Longrightarrow>
   map_of (map (\<lambda>row. if fst row = ident then (key, ob) else row) rows) k = map_of rows k"
  by (induction rows) auto

lemma map_of_rewrite_key:
  "map_of rows ident \<noteq> None \<Longrightarrow> key = ident \<or> map_of rows key = None \<Longrightarrow>
   map_of (map (\<lambda>row. if fst row = ident then (key, ob) else row) rows) key = Some ob"
  by (induction rows) (auto split: if_splits)

lemma map_of_filter_neq: "map_of (filter (\<lambda>row. fst row \<noteq> k) rows) k = None"
  by (induction rows) auto

lemma flush_append:
  "flush cls rows (ops @ [op]) =
     (case flush cls rows ops of Inl e \<Rightarrow> Inl e | Inr rows' \<Rightarrow> flush_op cls rows' op)"
  by (induction ops arbitrary: rows) (auto split: sum.splits)

subsection \<open>Create\<close>

text \<open>Whatever the model, the session and the body, create returns no projection.\<close>

lemma base_create_object_never_returns:
  "\<exists>e. fst (base_create_object cls s raw_obj read_class) = Inl e"
  by (auto simp: base_create_object_def session_refresh_def split: sum.splits option.splits)

text \<open>A create whose key is taken is the 422 of a duplicate, and nothing is written.\<close>

lemma base_create_object_duplicate:
  assumes "to_db cls raw_obj = Inr ob" and "fst (m_validate cls ob)"
    and "as_id_tuple cls ob = Inr obj_id"
    and "session_get cls s obj_id = Inr (Some existing)"
  shows "base_create_object cls s raw_obj read_class =
           (Inl (HTTPException 422 (ObjectAlreadyExists obj_id) []), s)"
  using assms by (simp add: base_create_object_def)

text \<open>
  The route of create decodes the body as the update class: on \<^verbatim>\<open>Tag\<close>, whose
  create class has the field \<^verbatim>\<open>name\<close> and whose update class has none.
\<close>

lemma register_create_Tag:
  "register_create Tag [] ''tags'' [''admin''] =
     Inr [\<lparr>route_path = ''/tags'', route_endpoint = CreateEndpoint [''admin''] [],
           route_methods = [''POST''], route_status_code = Some 201\<rparr>]"
  by (simp add: register_create_def Tag_def add_api_route_def create_object_wrapper_def)

text \<open>
  C3. A valid create request should be rejected with 422, persisting nothing, when its
  key exists, and otherwise persist the object and return its Read projection with 201,
  the body decoded as the Create projection. On \<^verbatim>\<open>Player\<close>, an empty table and
  the body \<^verbatim>\<open>{"username": "alice"}\<close> the code persists the row and then raises
  \<^verbatim>\<open>TypeError\<close> at \<^verbatim>\<open>session.refresh()\<close>: no projection is returned.
\<close>

theorem base_create_object_Player_raises:
  "base_create_object Player empty_session [(''username'', VStr ''alice'')] [''id'', ''username''] =
     (Inl (TypeError ''refresh() missing 1 required positional argument: instance''),
      \<lparr>db_rows = [([VInt 1], [(''id'', VInt 1), (''username'', VStr ''alice'')])],
       pending = []\<rparr>)"
  by code_simp

subsection \<open>Delete and read\<close>

text \<open>
  C9. If \<^verbatim>\<open>Delete(key)\<close> succeeds, the key was present, and a following
  \<^verbatim>\<open>Read-one(key)\<close> on the store it left is the 404 of a missing object; a delete
  of an absent key is a 404 and leaves the store as it was; and a delete of a present key,
  in a new session, succeeds, returns nothing and removes the row under the key.
\<close>

theorem delete_is_terminal:
  "(base_delete_object cls s kwargs = (Inr u, s') \<longrightarrow>
      (\<exists>ob. session_get cls s (kwargs_id kwargs) = Inr (Some ob))
    \<and> base_read_single cls s' read_class kwargs =
        Inl (HTTPException 404 (DBObjectNotFound (m_name cls) (kwargs_id kwargs)) []))
   \<and> (session_get cls s (kwargs_id kwargs) = Inr None \<longrightarrow>
        base_delete_object cls s kwargs =
          (Inl (HTTPException 404 (ObjectNotFound (m_name cls) (kwargs_id kwargs)) []), s))
   \<and> (pending s = [] \<and> session_get cls s (kwargs_id kwargs) = Inr (Some ob) \<longrightarrow>
        base_delete_object cls s kwargs =
          (Inr (), \<lparr>db_rows = filter (\<lambda>row. fst row \<noteq> kwargs_id kwargs) (db_rows s),
                    pending = []\<rparr>))"
proof (intro conjI impI)
  assume del: "base_delete_object cls s kwargs = (Inr u, s')"
  then obtain ob where ob: "session_get cls s (kwargs_id kwargs) = Inr (Some ob)"
    by (auto simp: base_delete_object_def split: sum.splits option.splits)
  then show "\<exists>ob. session_get cls s (kwargs_id kwargs) = Inr (Some ob)"
    by blast
  from ob obtain keys where keys: "primary_keys cls = Inr keys"
    and len: "length (kwargs_id kwargs) = length keys"
    by (auto simp: session_get_def split: sum.splits if_splits)
  from del ob have "map_of (db_rows s') (kwargs_id kwargs) = None"
    by (auto simp: base_delete_object_def session_commit_def session_add_def flush_append
          map_of_filter_neq split: sum.splits)
  with keys len show "base_read_single cls s' read_class kwargs =
      Inl (HTTPException 404 (DBObjectNotFound (m_name cls) (kwargs_id kwargs)) [])"
    by (simp add: base_read_single_def session_get_def)
next
  assume "session_get cls s (kwargs_id kwargs) = Inr None"
  then show "base_delete_object cls s kwargs =
      (Inl (HTTPException 404 (ObjectNotFound (m_name cls) (kwargs_id kwargs)) []), s)"
    by (simp add: base_delete_object_def)
next
  assume "pending s = [] \<and> session_get cls s (kwargs_id kwargs) = Inr (Some ob)"
  then show "base_delete_object cls s kwargs =
      (Inr (), \<lparr>db_rows = filter (\<lambda>row. fst row \<noteq> kwargs_id kwargs) (db_rows s),
                pending = []\<rparr>)"
    by (simp add: base_delete_object_def session_commit_def session_add_def)
qed

lemma session_get_two_players_1:
  "session_get Player two_players (kwargs_id [(''id'', VInt 1)]) =
     Inr (Some [(''id'', VInt 1), (''username'', VStr ''alice'')])"
  by (simp add: session_get_def primary_keys_Player kwargs_id_def two_players_def)

lemma session_get_two_players_3:
  "session_get Player two_players (kwargs_id [(''id'', VInt 3)]) = Inr None"
  by (simp add: session_get_def primary_keys_Player kwargs_id_def two_players_def)

theorem delete_is_terminal_witness:
  "(\<exists>s'. base_delete_object Player two_players [(''id'', VInt 1)] = (Inr (), s')
        \<and> base_read_single Player s' [''id'', ''username''] [(''id'', VInt 1)] =
            Inl (HTTPException 404 (DBObjectNotFound ''Player'' [VInt 1]) []))
   \<and> session_get Player two_players (kwargs_id [(''id'', VInt 3)]) = Inr None
   \<and> base_delete_object Player two_players [(''id'', VInt 3)] =
       (Inl (HTTPException 404 (ObjectNotFound ''Player'' [VInt 3]) []), two_players)"
proof -
  have p: "pending two_players = []"
    by (simp add: two_players_def)
  note t1 = delete_is_terminal[where cls = Player and s = two_players
      and kwargs = "[(''id'', VInt 1)]" and u = "()" and read_class = "[''id'', ''username'']"
      and ob = "[(''id'', VInt 1), (''username'', VStr ''alice'')]"]
  from t1 p session_get_two_players_1
  have d: "base_delete_object Player two_players [(''id'', VInt 1)] =
      (Inr (), \<lparr>db_rows = filter (\<lambda>row. fst row \<noteq> kwargs_id [(''id'', VInt 1)]) (db_rows two_players),
                pending = []\<rparr>)"
    by blast
  from t1 d
  have r: "base_read_single Player
        \<lparr>db_rows = filter (\<lambda>row. fst row \<noteq> kwargs_id [(''id'', VInt 1)]) (db_rows two_players),
         pending = []\<rparr> [''id'', ''username''] [(''id'', VInt 1)] =
      Inl (HTTPException 404 (DBObjectNotFound (m_name Player) (kwargs_id [(''id'', VInt 1)])) [])"
    by blast
  from delete_is_terminal[where cls = Player and s = two_players
      and kwargs = "[(''id'', VInt 3)]"] session_get_two_players_3
  have a: "base_delete_object Player two_players [(''id'', VInt 3)] =
      (Inl (HTTPException 404 (ObjectNotFound (m_name Player) (kwargs_id [(''id'', VInt 3)])) []),
       two_players)"
    by blast
  have n: "m_name Player = ''Player''"
    by (simp add: Player_def)
  from d r a session_get_two_players_3 show ?thesis
    by (simp add: n kwargs_id_def)
qed

subsection \<open>Update\<close>

lemma base_update_object_Inr:
  assumes "pending s = []"
    and "base_update_object cls s read_class new_obj kwargs = (Inr r, s')"
  shows "\<exists>old parsed.
           session_get cls s (kwargs_id kwargs) = Inr (Some old)
         \<and> to_db cls new_obj = Inr parsed
         \<and> flush_update cls (db_rows s) (kwargs_id kwargs) (setattrs old parsed) = Inr (db_rows s')"
  using assms
  by (auto simp: base_update_object_def session_commit_def session_add_def
        split: sum.splits option.splits if_splits)

lemma flush_update_Inr:
  assumes "flush_update cls rows ident ob = Inr rows'"
  shows "\<exists>key. as_id_tuple cls ob = Inr key
           \<and> map_of rows ident \<noteq> None
           \<and> (key = ident \<or> map_of rows key = None)
           \<and> rows' = map (\<lambda>row. if fst row = ident then (key, ob) else row) rows"
  using assms
  by (auto simp: flush_update_def as_id_tuple_def primary_keys_def Let_def
        split: option.splits if_splits)

lemma base_update_object_Settings:
  "base_update_object Settings settings_rows [''name'', ''theme'', ''volume'']
       [(''theme'', VStr ''blue'')] [(''name'', VStr ''main'')] =
     (Inr [(''name'', VStr ''main''), (''theme'', VStr ''blue''), (''volume'', VInt 5)],
      \<lparr>db_rows = [([VStr ''main''],
                   [(''name'', VStr ''main''), (''theme'', VStr ''blue''), (''volume'', VInt 5)]),
                  ([VStr ''guest''],
                   [(''name'', VStr ''guest''), (''theme'', VStr ''dark''), (''volume'', VInt 2)])],
       pending = []\<rparr>)"
  by code_simp

text \<open>
  On \<^verbatim>\<open>Player\<close> the dump of the parsed instance has no \<^verbatim>\<open>id\<close>, so
  the key is left as it is and the row is rewritten under it.
\<close>

lemma base_update_object_Player:
  "base_update_object Player two_players [''id'', ''username'']
       [(''username'', VStr ''carol'')] [(''id'', VInt 1)] =
     (Inr [(''id'', VInt 1), (''username'', VStr ''carol'')],
      \<lparr>db_rows = [([VInt 1], [(''id'', VInt 1), (''username'', VStr ''carol'')]),
                  ([VInt 2], [(''id'', VInt 2), (''username'', VStr ''bob'')])],
       pending = []\<rparr>)"
  by code_simp

text \<open>A \<^verbatim>\<open>None\<close> for a column that refuses it fails at the commit.\<close>

lemma base_update_object_null_refused:
  "base_update_object Settings settings_rows [''name'', ''theme'', ''volume'']
       [(''volume'', VNone)] [(''name'', VStr ''main'')] =
     (Inl (StoreError ''NOT NULL constraint failed''), settings_rows)"
  by code_simp

text \<open>
  C10, as stated, fails. \<^verbatim>\<open>Account\<close> has the field
  \<^verbatim>\<open>username\<close> outside its update projection and without a declared
  default. The update of the row 1 with the body \<^verbatim>\<open>{"note": "bye"}\<close>
  succeeds; the dump of the fresh instance has the item \<^verbatim>\<open>note\<close> only, and
  the stored \<^verbatim>\<open>username\<close> is the one stored before, \<^verbatim>\<open>alice\<close>.
\<close>

theorem base_update_object_keeps_undefaulted_field:
  "base_update_object Account account_rows [''id'', ''username'', ''note'']
       [(''note'', VStr ''bye'')] [(''id'', VInt 1)] =
     (Inr [(''id'', VInt 1), (''username'', VStr ''alice''), (''note'', VStr ''bye'')],
      \<lparr>db_rows = [([VInt 1],
                   [(''id'', VInt 1), (''username'', VStr ''alice''), (''note'', VStr ''bye'')]),
                  ([VInt 2],
                   [(''id'', VInt 2), (''username'', VStr ''bob''), (''note'', VStr ''hi'')])],
       pending = []\<rparr>)
   \<and> to_db Account [(''note'', VStr ''bye'')] = Inr [(''note'', VStr ''bye'')]"
  by (rule conjI) code_simp+

text \<open>
  C10, amended. After a successful update, in a new session and for a model whose field
  names are distinct, the row stored under the object's key holds, for every field of the
  model, the value of the fresh instance where the dump of that instance has the field,
  and the value stored before where it has not; the dump has the value the body gives,
  else the field's declared default, and nothing for a field with neither. So an omitted
  field with a declared default is reset to it, and an omitted field without one keeps its
  stored value. Every row under another key is as it was, none added and none removed.
\<close>

theorem base_update_object_overwrites_dump:
  assumes "pending s = []"
    and "distinct (map field_name (m_fields cls))"
    and "base_update_object cls s read_class new_obj kwargs = (Inr r, s')"
  shows "\<exists>old parsed stored key.
           session_get cls s (kwargs_id kwargs) = Inr (Some old)
         \<and> to_db cls new_obj = Inr parsed
         \<and> as_id_tuple cls stored = Inr key
         \<and> map_of (db_rows s') key = Some stored
         \<and> (\<forall>f \<in> set (m_fields cls).
               map_of stored (field_name f) =
                 (case map_of parsed (field_name f) of
                    Some v \<Rightarrow> Some v
                  | None \<Rightarrow> map_of old (field_name f)))
         \<and> (\<forall>f \<in> set (m_fields cls).
               map_of parsed (field_name f) =
                 (case map_of new_obj (field_name f) of
                    Some v \<Rightarrow> Some v
                  | None \<Rightarrow> field_default f))
         \<and> (\<forall>k. k \<noteq> kwargs_id kwargs \<and> k \<noteq> key \<longrightarrow> map_of (db_rows s') k = map_of (db_rows s) k)
         \<and> (key = kwargs_id kwargs \<or> map_of (db_rows s) key = None)"
proof -
  from base_update_object_Inr[OF assms(1) assms(3)]
  obtain old parsed where
    old: "session_get cls s (kwargs_id kwargs) = Inr (Some old)" and
    parsed: "to_db cls new_obj = Inr parsed" and
    fl: "flush_update cls (db_rows s) (kwargs_id kwargs) (setattrs old parsed) = Inr (db_rows s')"
    by blast
  let ?stored = "setattrs old parsed"
  let ?ident = "kwargs_id kwargs"
  from flush_update_Inr[OF fl] obtain key where
    key: "as_id_tuple cls ?stored = Inr key" and
    present: "map_of (db_rows s) ?ident \<noteq> None" and
    free: "key = ?ident \<or> map_of (db_rows s) key = None" and
    rows': "db_rows s' = map (\<lambda>row. if fst row = ?ident then (key, ?stored) else row) (db_rows s)"
    by blast
  from old obtain cols where "m_table cls = Some cols"
    by (auto simp: session_get_def primary_keys_def split: option.splits)
  with parsed have pd: "parsed = table_construct (m_fields cls) new_obj"
    by (simp add: to_db_def)
  have dist: "distinct (map fst parsed)"
    using assms(2) by (simp add: pd table_construct_distinct)
  have c3: "map_of (db_rows s') key = Some ?stored"
    using present free by (simp add: rows' map_of_rewrite_key)
  have c4: "\<forall>f \<in> set (m_fields cls).
               map_of ?stored (field_name f) =
                 (case map_of parsed (field_name f) of
                    Some v \<Rightarrow> Some v
                  | None \<Rightarrow> map_of old (field_name f))"
    by (simp add: map_of_setattrs[OF dist])
  have c5: "\<forall>f \<in> set (m_fields cls).
               map_of parsed (field_name f) =
                 (case map_of new_obj (field_name f) of
                    Some v \<Rightarrow> Some v
                  | None \<Rightarrow> field_default f)"
    using assms(2) by (simp add: pd table_construct_lookup)
  have c6: "\<forall>k. k \<noteq> ?ident \<and> k \<noteq> key \<longrightarrow> map_of (db_rows s') k = map_of (db_rows s) k"
    by (simp add: rows' map_of_rewrite_other)
  from old parsed key c3 c4 c5 c6 free show ?thesis by blast
qed

theorem base_update_object_overwrites_dump_witness:
  "pending settings_rows = []
   \<and> distinct (map field_name (m_fields Settings))
   \<and> (\<exists>r s'. base_update_object Settings settings_rows [''name'', ''theme'', ''volume'']
                 [(''theme'', VStr ''blue'')] [(''name'', VStr ''main'')] = (Inr r, s')
        \<and> (\<exists>parsed stored key.
              to_db Settings [(''theme'', VStr ''blue'')] = Inr parsed
            \<and> map_of (db_rows s') key = Some stored
            \<and> (\<forall>f \<in> set (m_fields Settings).
                  map_of parsed (field_name f) =
                    (case map_of [(''theme'', VStr ''blue'')] (field_name f) of
                       Some v \<Rightarrow> Some v
                     | None \<Rightarrow> field_default f))))"
proof -
  have a: "pending settings_rows = []"
    by (simp add: settings_rows_def)
  have b: "distinct (map field_name (m_fields Settings))"
    by (simp add: Settings_def)
  from base_update_object_overwrites_dump[OF a b base_update_object_Settings]
  obtain parsed stored key where
    "to_db Settings [(''theme'', VStr ''blue'')] = Inr parsed"
    and "map_of (db_rows \<lparr>db_rows = [([VStr ''main''],
                   [(''name'', VStr ''main''), (''theme'', VStr ''blue''), (''volume'', VInt 5)]),
                  ([VStr ''guest''],
                   [(''name'', VStr ''guest''), (''theme'', VStr ''dark''), (''volume'', VInt 2)])],
       pending = []\<rparr>) key = Some stored"
    and "\<forall>f \<in> set (m_fields Settings).
           map_of parsed (field_name f) =
             (case map_of [(''theme'', VStr ''blue'')] (field_name f) of
                Some v \<Rightarrow> Some v
              | None \<Rightarrow> field_default f)"
    by blast
  with a b base_update_object_Settings show ?thesis
    by blast
qed

section \<open>The list query: results\<close>

lemma length_insort_by: "length (insort_by le x xs) = Suc (length xs)"
  by (induction xs) auto

lemma length_sort_by: "length (sort_by le xs) = length xs"
  unfolding sort_by_def by (induction xs) (auto simp: length_insort_by)

lemma length_order_rows: "length (order_rows c d rows) = length rows"
  by (simp add: order_rows_def length_sort_by)

lemma length_map_from_db: "map_from_db rc obs = Inr rs \<Longrightarrow> length rs = length obs"
  by (induction obs arbitrary: rs) (auto split: sum.splits)

lemma order_by_keeps:
  "order_by cls q c d = Inr q' \<Longrightarrow>
     q_where q' = q_where q \<and> q_offset q' = q_offset q \<and> q_limit q' = q_limit q"
  by (auto simp: order_by_def split: if_splits option.splits)

lemma exec_query_at_most_limit:
  "q_limit q = Some limit \<Longrightarrow> length (exec_query s q) \<le> limit"
  by (simp add: exec_query_def Let_def)

lemma exec_query_past_end:
  "q_offset q = Some offset \<Longrightarrow> length (db_rows s) \<le> offset \<Longrightarrow> exec_query s q = []"
  apply (simp add: exec_query_def Let_def split: option.splits)
  apply (auto simp: length_order_rows intro: le_trans[OF length_filter_le])
  done

text \<open>
  Whenever the list operation returns, the count it reports is the length of the page it
  returns.
\<close>

lemma base_read_list_object_total_is_page:
  "base_read_list_object cls s offset limit sort_field direction filter_text read_class = Inr r
   \<Longrightarrow> total r = length (data r)"
  by (auto simp: base_read_list_object_def count_subquery_def length_map_from_db
        split: sum.splits option.splits if_splits)

text \<open>
  Without a filter, a list operation that returns gives a page of at most \<open>limit\<close> rows,
  and an empty page when the offset is not below the size of the table.
\<close>

lemma base_read_list_object_unfiltered_query:
  assumes "base_read_list_object cls s offset limit sort_field direction None read_class = Inr r"
  shows "\<exists>q. q_offset q = Some offset \<and> q_limit q = Some limit
             \<and> map_from_db read_class (exec_query s q) = Inr (data r)"
proof -
  let ?q0 = "select\<lparr>q_offset := Some offset, q_limit := Some limit\<rparr>"
  have q0: "q_offset ?q0 = Some offset" "q_limit ?q0 = Some limit"
    by simp_all
  show ?thesis
  proof (cases "sort_field = None \<or> sort_field = Some []")
    case True
    with assms have "map_from_db read_class (exec_query s ?q0) = Inr (data r)"
      by (auto simp: base_read_list_object_def split: sum.splits)
    with q0 show ?thesis by blast
  next
    case False
    then obtain c where c: "sort_field = Some c" "c \<noteq> []"
      by auto
    with assms obtain q where ob: "order_by cls ?q0 c direction = Inr q"
      and objs: "map_from_db read_class (exec_query s q) = Inr (data r)"
      by (auto simp: base_read_list_object_def split: sum.splits)
    from order_by_keeps[OF ob] q0 have "q_offset q = Some offset" "q_limit q = Some limit"
      by simp_all
    with objs show ?thesis by blast
  qed
qed

lemma base_read_list_object_unfiltered_bounds:
  assumes "base_read_list_object cls s offset limit sort_field direction None read_class = Inr r"
  shows "length (data r) \<le> limit \<and> (length (db_rows s) \<le> offset \<longrightarrow> data r = [])"
proof -
  from base_read_list_object_unfiltered_query[OF assms]
  obtain q where q: "q_offset q = Some offset" "q_limit q = Some limit"
    and objs: "map_from_db read_class (exec_query s q) = Inr (data r)"
    by blast
  from objs have len: "length (data r) = length (exec_query s q)"
    by (rule length_map_from_db)
  with q(2) have "length (data r) \<le> limit"
    by (simp add: exec_query_at_most_limit)
  moreover have "data r = []" if "length (db_rows s) \<le> offset"
    using len exec_query_past_end[OF q(1) that] by simp
  ultimately show ?thesis by blast
qed

lemma full_filtered_size_two_players: "full_filtered_size two_players no_filter = 2"
  by (simp add: full_filtered_size_def two_players_def no_filter_def)

lemma base_read_list_object_limit_2:
  "base_read_list_object Player two_players 0 2 (Some ''id'') ''asc'' None [''id'', ''username''] =
     Inr \<lparr>total = 2, data = [[(''id'', VInt 1), (''username'', VStr ''alice'')],
                              [(''id'', VInt 2), (''username'', VStr ''bob'')]]\<rparr>"
  by code_simp

text \<open>
  C1. The \<^verbatim>\<open>total\<close> of the paginated response should be the size of the full
  filtered set, whatever the offset and the limit. On \<^verbatim>\<open>Player\<close> with two rows,
  no filter, offset 0 and limit 1 the code reports a total of 1: the count is taken of
  the query that already carries the offset and the limit.
\<close>

theorem base_read_list_object_total_is_page_size:
  "base_read_list_object Player two_players 0 1 (Some ''id'') ''asc'' None [''id'', ''username''] =
     Inr \<lparr>total = 1, data = [[(''id'', VInt 1), (''username'', VStr ''alice'')]]\<rparr>
   \<and> full_filtered_size two_players no_filter = 2"
  by (rule conjI) code_simp+

text \<open>
  The condition the filter would state: the case of ASCII letters is ignored, and the
  filter text's \<^verbatim>\<open>_\<close> and \<^verbatim>\<open>%\<close> are wildcards.
\<close>

lemma lower_contains_examples:
  "lower_contains ''username'' ''ali'' [(''id'', VInt 1), (''username'', VStr ''Alice'')]"
  "lower_contains ''username'' ''ALI'' [(''id'', VInt 1), (''username'', VStr ''Alice'')]"
  "lower_contains ''username'' ''a_i%e'' [(''id'', VInt 1), (''username'', VStr ''Alice'')]"
  "\<not> lower_contains ''username'' ''bob'' [(''id'', VInt 1), (''username'', VStr ''Alice'')]"
  by code_simp+

text \<open>
  C4. With a non-empty filter text and a model that has a default-filter field, the list
  query should be constrained to the rows where some default-filter field contains the
  text, case-insensitively. On \<^verbatim>\<open>Player\<close> and the text \<^verbatim>\<open>ali\<close> no
  query is built: the discovery of the default filters raises.
\<close>

theorem apply_filter_Player_raises:
  "apply_filter Player select ''ali'' = Inl (AttributeError ''list object has no attribute get'')"
  by (simp add: apply_filter_def get_default_filters_def class_vars_Player)
     (simp add: Player_def Player_mro_def)

text \<open>
  C8. A list query with an offset not below the size of the filtered set should return
  zero rows, not an error. On \<^verbatim>\<open>Player\<close> with two rows, the filter text
  \<^verbatim>\<open>ali\<close> (one row matches), offset 5 and limit 10 the code raises.
\<close>

theorem base_read_list_object_filtered_raises:
  "base_read_list_object Player two_players 5 10 (Some ''id'') ''asc'' (Some ''ali'')
       [''id'', ''username''] =
     Inl (AttributeError ''list object has no attribute get'')"
  by code_simp

section \<open>Authorization: results\<close>

lemma get_user_the_user: "get_user FAKE_DB ''user'' = Some the_user"
  by (simp add: get_user_def FAKE_DB_def the_user_def)

lemma admin_not_granted: "\<not> py_in ''admin'' (u_access the_user)"
  by (simp add: the_user_def startswith_def)

text \<open>
  C2. A handler should reject, with the insufficient-scope 401, every active principal
  whose granted scopes do not cover the scopes the operation declares, and run its body
  only when they do. The principal \<^verbatim>\<open>user\<close> is active and is granted
  \<^verbatim>\<open>player\<close>; a write operation declares \<^verbatim>\<open>admin\<close>; with a
  token that names the user and carries no scope, the dependency returns the user and the
  handler's body runs.
\<close>

theorem security_dependency_ignores_required_scopes:
  "security_dependency sample_decode FAKE_DB [''admin''] ''token-user'' = Inr the_user
   \<and> \<not> u_disabled the_user
   \<and> \<not> py_in ''admin'' (u_access the_user)"
  by (simp add: security_dependency_def get_current_user_def sample_decode_def get_user_the_user
        requested_scopes_def get_current_active_user_def admin_not_granted)
     (simp add: the_user_def)

text \<open>
  What the dependency does test is the scopes the token carries, against the principal's
  \<^verbatim>\<open>access\<close>: a token scope outside it is the 401, whose header names the
  operation's scopes; and a request that passes for one list of declared scopes passes for
  every other.
\<close>

lemma security_dependency_tests_token_scopes:
  "(jwt_decode token = Some p \<and> p_sub p = Some name \<and> get_user db name = Some usr
      \<and> \<not> scopes_permitted (requested_scopes p) (u_access usr) \<longrightarrow>
      security_dependency jwt_decode db required token =
        Inl (HTTPException 401 NotEnoughPermissions
               [(''WWW-Authenticate'', authenticate_value (required @ [''player'']))]))
   \<and> (security_dependency jwt_decode db required token = Inr usr \<longrightarrow>
        (\<exists>p name. jwt_decode token = Some p \<and> p_sub p = Some name \<and> get_user db name = Some usr
           \<and> list_all (\<lambda>scope. py_in scope (u_access usr)) (requested_scopes p)
           \<and> \<not> u_disabled usr)
        \<and> security_dependency jwt_decode db required' token = Inr usr)"
proof -
  have perm: "scopes_permitted scopes permitted = list_all (\<lambda>scope. py_in scope permitted) scopes"
    for scopes permitted
    by (induction scopes) auto
  show ?thesis
    by (auto simp: security_dependency_def get_current_user_def get_current_active_user_def
          access_exception_def perm split: option.splits if_splits sum.splits)
qed

end
